theory Spec2Isabelle
  imports Main
begin

section \<open>JavaScript strings\<close>

text \<open>
  A JavaScript string is modelled as a \<^typ>\<open>string\<close>, one \<^typ>\<open>char\<close> per character.
  Every directive, trigger phrase, tag and template of the program is ASCII, and the
  model is exact on ASCII text: the case conversions map the 26 letters, white space
  (the class \<^verbatim>\<open>\s\<close> of the regular expressions and the characters removed by
  \<^verbatim>\<open>trim\<close>) is TAB, LF, VT, FF, CR and SPACE. Characters beyond ASCII are
  carried through unchanged: they have no case and are not white space.
\<close>

definition is_space :: "char \<Rightarrow> bool" where
  "is_space c = (c \<in> set [CHR 0x09, CHR 0x0A, CHR 0x0B, CHR 0x0C, CHR 0x0D, CHR '' ''])"

definition upper_letters :: string where
  "upper_letters = ''ABCDEFGHIJKLMNOPQRSTUVWXYZ''"

definition lower_letters :: string where
  "lower_letters = ''abcdefghijklmnopqrstuvwxyz''"

definition digits :: string where
  "digits = ''0123456789''"

definition is_upper :: "char \<Rightarrow> bool" where
  "is_upper c = (c \<in> set upper_letters)"

definition is_lower :: "char \<Rightarrow> bool" where
  "is_lower c = (c \<in> set lower_letters)"

definition is_digit :: "char \<Rightarrow> bool" where
  "is_digit c = (c \<in> set digits)"

definition toLowerChar :: "char \<Rightarrow> char" where
  "toLowerChar c = (case map_of (zip upper_letters lower_letters) c of Some d \<Rightarrow> d | None \<Rightarrow> c)"

definition toUpperChar :: "char \<Rightarrow> char" where
  "toUpperChar c = (case map_of (zip lower_letters upper_letters) c of Some d \<Rightarrow> d | None \<Rightarrow> c)"

definition toLowerCase :: "string \<Rightarrow> string" where
  "toLowerCase s = map toLowerChar s"

definition toUpperCase :: "string \<Rightarrow> string" where
  "toUpperCase s = map toUpperChar s"

text \<open>\<^verbatim>\<open>s.trim()\<close>: white space removed at both ends.\<close>

definition trim :: "string \<Rightarrow> string" where
  "trim s = rev (dropWhile is_space (rev (dropWhile is_space s)))"

text \<open>\<^verbatim>\<open>s.startsWith(p)\<close>, \<^verbatim>\<open>s.endsWith(p)\<close>, \<^verbatim>\<open>s.includes(p)\<close>.\<close>

fun startsWith :: "string \<Rightarrow> string \<Rightarrow> bool" where
  "startsWith s [] = True"
| "startsWith [] (p # ps) = False"
| "startsWith (c # cs) (p # ps) = (c = p \<and> startsWith cs ps)"

definition endsWith :: "string \<Rightarrow> string \<Rightarrow> bool" where
  "endsWith s p = startsWith (rev s) (rev p)"

fun includes_str :: "string \<Rightarrow> string \<Rightarrow> bool" where
  "includes_str [] p = (p = [])"
| "includes_str (c # cs) p = (startsWith (c # cs) p \<or> includes_str cs p)"

text \<open>\<^verbatim>\<open>xs.join(sep)\<close>.\<close>

fun join :: "string \<Rightarrow> string list \<Rightarrow> string" where
  "join sep [] = []"
| "join sep [x] = x"
| "join sep (x # y # ys) = x @ sep @ join sep (y # ys)"

text \<open>
  \<^verbatim>\<open>s.replace(/\s+/g, r)\<close>: every maximal run of white space becomes \<open>r\<close>.
\<close>

function replace_ws_runs :: "string \<Rightarrow> string \<Rightarrow> string" where
  "replace_ws_runs r [] = []"
| "replace_ws_runs r (c # cs) =
     (if is_space c then r @ replace_ws_runs r (dropWhile is_space cs)
      else c # replace_ws_runs r cs)"
  by pat_completeness auto
termination
  by (relation "measure (\<lambda>(r, s). length s)") (auto simp: length_dropWhile_le less_Suc_eq_le)

section \<open>Regular expressions\<close>

text \<open>
  A regular expression is modelled by its matcher at the start of a string: \<open>m s\<close> is
  \<open>Some n\<close> when the expression matches the first \<open>n\<close> characters of \<open>s\<close> (the match
  that the engine prefers there), and \<open>None\<close> when it does not match at the start of
  \<open>s\<close>. The combinators below commit to the longest run of a repetition. Each
  expression built from them has, after every repetition, either nothing or a
  character outside the class repeated, so that no shorter run could succeed where the
  longest fails.
\<close>

type_synonym matcher = "string \<Rightarrow> nat option"

definition m_lit :: "string \<Rightarrow> matcher" where
  "m_lit p s = (if startsWith s p then Some (length p) else None)"

text \<open>With the \<^verbatim>\<open>i\<close> flag, letters match in either case.\<close>

fun startsWith_ci :: "string \<Rightarrow> string \<Rightarrow> bool" where
  "startsWith_ci s [] = True"
| "startsWith_ci [] (p # ps) = False"
| "startsWith_ci (c # cs) (p # ps) = (toUpperChar c = toUpperChar p \<and> startsWith_ci cs ps)"

definition m_lit_ci :: "string \<Rightarrow> matcher" where
  "m_lit_ci p s = (if startsWith_ci s p then Some (length p) else None)"

text \<open>One character of a class; a run of at least \<open>k\<close> characters of a class.\<close>

definition m_class :: "(char \<Rightarrow> bool) \<Rightarrow> matcher" where
  "m_class P s = (case s of [] \<Rightarrow> None | c # cs \<Rightarrow> if P c then Some 1 else None)"

definition m_min :: "nat \<Rightarrow> (char \<Rightarrow> bool) \<Rightarrow> matcher" where
  "m_min k P s = (let n = length (takeWhile P s) in if k \<le> n then Some n else None)"

definition m_seq :: "matcher \<Rightarrow> matcher \<Rightarrow> matcher" where
  "m_seq m1 m2 s =
     (case m1 s of
        None \<Rightarrow> None
      | Some a \<Rightarrow> (case m2 (drop a s) of None \<Rightarrow> None | Some b \<Rightarrow> Some (a + b)))"

definition m_opt :: "matcher \<Rightarrow> matcher" where
  "m_opt m s = (case m s of None \<Rightarrow> Some 0 | Some n \<Rightarrow> Some n)"

text \<open>
  \<open>m_repeat m s\<close>: the iterations of \<open>m\<close> from the start of \<open>s\<close>, as many as match,
  as the pair of their number and their total length.
\<close>

function m_repeat :: "matcher \<Rightarrow> string \<Rightarrow> nat \<times> nat" where
  "m_repeat m [] = (0, 0)"
| "m_repeat m (c # cs) =
     (case m (c # cs) of
        Some (Suc n) \<Rightarrow> (case m_repeat m (drop n cs) of (k, l) \<Rightarrow> (Suc k, Suc n + l))
      | _ \<Rightarrow> (0, 0))"
  by pat_completeness auto
termination
  by (relation "measure (\<lambda>(m, s). length s)") auto

definition m_min_times :: "nat \<Rightarrow> matcher \<Rightarrow> matcher" where
  "m_min_times k m s = (case m_repeat m s of (iterations, n) \<Rightarrow> if k \<le> iterations then Some n else None)"

text \<open>
  A lazy repetition \<^verbatim>\<open>X*?\<close> followed by \<open>close\<close>: the characters up to the first
  place where \<open>close\<close> matches, all of them in the class \<open>X\<close>. The result is the
  number of characters skipped and the length of the match of \<open>close\<close>.
\<close>

fun lazy_until :: "(char \<Rightarrow> bool) \<Rightarrow> matcher \<Rightarrow> string \<Rightarrow> (nat \<times> nat) option" where
  "lazy_until X close [] = (case close [] of Some n \<Rightarrow> Some (0, n) | None \<Rightarrow> None)"
| "lazy_until X close (c # cs) =
     (case close (c # cs) of
        Some n \<Rightarrow> Some (0, n)
      | None \<Rightarrow>
          if X c
          then (case lazy_until X close cs of Some (k, n) \<Rightarrow> Some (Suc k, n) | None \<Rightarrow> None)
          else None)"

text \<open>
  \<^verbatim>\<open>open(X*?)close\<close>: the length of the match and the text of the group.
\<close>

definition m_between :: "matcher \<Rightarrow> (char \<Rightarrow> bool) \<Rightarrow> matcher \<Rightarrow> string \<Rightarrow> (nat \<times> string) option" where
  "m_between open X close s =
     (case open s of
        None \<Rightarrow> None
      | Some a \<Rightarrow>
          (case lazy_until X close (drop a s) of
             None \<Rightarrow> None
           | Some (k, n) \<Rightarrow> Some (a + k + n, take k (drop a s))))"

text \<open>The class of \<^verbatim>\<open>.\<close>: every character but the line terminators.\<close>

definition dot :: "char \<Rightarrow> bool" where
  "dot c = (c \<noteq> CHR 0x0A \<and> c \<noteq> CHR 0x0D)"

text \<open>An expression that starts with \<^verbatim>\<open>^\<close> is tested at the start of the string only.\<close>

definition matches :: "(string \<Rightarrow> 'a option) \<Rightarrow> string \<Rightarrow> bool" where
  "matches m s = (m s \<noteq> None)"

text \<open>\<^verbatim>\<open>re.test(s)\<close>: a match at some position.\<close>

fun test_re :: "(string \<Rightarrow> 'a option) \<Rightarrow> string \<Rightarrow> bool" where
  "test_re m [] = (m [] \<noteq> None)"
| "test_re m (c # cs) = (m (c # cs) \<noteq> None \<or> test_re m cs)"

text \<open>\<^verbatim>\<open>s.split(re)\<close>: cut at the successive matches, left to right.\<close>

function split_re :: "matcher \<Rightarrow> string \<Rightarrow> string list" where
  "split_re m [] = [[]]"
| "split_re m (c # cs) =
     (case m (c # cs) of
        Some (Suc n) \<Rightarrow> [] # split_re m (drop n cs)
      | _ \<Rightarrow> (case split_re m cs of w # ws \<Rightarrow> (c # w) # ws | [] \<Rightarrow> [[c]]))"
  by pat_completeness auto
termination
  by (relation "measure (\<lambda>(m, s). length s)") auto

text \<open>
  \<^verbatim>\<open>s.replace(re, r)\<close> with the \<^verbatim>\<open>g\<close> flag: the successive matches, left to
  right, each replaced; \<open>replace_re\<close> puts a fixed text, \<open>replace_by\<close> the text that
  the matcher computes from the match (a replacement with \<^verbatim>\<open>$1\<close>).
\<close>

function replace_by :: "(string \<Rightarrow> (nat \<times> string) option) \<Rightarrow> string \<Rightarrow> string" where
  "replace_by m [] = []"
| "replace_by m (c # cs) =
     (case m (c # cs) of
        Some (Suc n, r) \<Rightarrow> r @ replace_by m (drop n cs)
      | _ \<Rightarrow> c # replace_by m cs)"
  by pat_completeness auto
termination
  by (relation "measure (\<lambda>(m, s). length s)") auto

definition replace_re :: "matcher \<Rightarrow> string \<Rightarrow> string \<Rightarrow> string" where
  "replace_re m r s = replace_by (\<lambda>t. case m t of None \<Rightarrow> None | Some n \<Rightarrow> Some (n, r)) s"

text \<open>
  \<^verbatim>\<open>s.replace(re, r)\<close> for an expression that starts with \<^verbatim>\<open>^\<close> and has no
  \<^verbatim>\<open>g\<close> flag.
\<close>

definition replace_anchored :: "matcher \<Rightarrow> string \<Rightarrow> string \<Rightarrow> string" where
  "replace_anchored m r s = (case m s of None \<Rightarrow> s | Some n \<Rightarrow> r @ drop n s)"

text \<open>
  \<^verbatim>\<open>s.replace(p, r)\<close> for a string \<open>p\<close>: the first occurrence of \<open>p\<close> is replaced.
  In \<open>r\<close>, \<^verbatim>\<open>$$\<close> stands for a dollar sign, \<^verbatim>\<open>$&\<close> for the occurrence, and
  \<^verbatim>\<open>$`\<close> and \<^verbatim>\<open>$'\<close> for the text before and after it.
\<close>

fun expand_replacement :: "string \<Rightarrow> string \<Rightarrow> string \<Rightarrow> string \<Rightarrow> string" where
  "expand_replacement matched preceding following [] = []"
| "expand_replacement matched preceding following [c] = [c]"
| "expand_replacement matched preceding following (c # d # r) =
     (if c = CHR ''$'' \<and> d = CHR ''$'' then CHR ''$'' # expand_replacement matched preceding following r
      else if c = CHR ''$'' \<and> d = CHR ''&'' then matched @ expand_replacement matched preceding following r
      else if c = CHR ''$'' \<and> d = CHR 0x60 then preceding @ expand_replacement matched preceding following r
      else if c = CHR ''$'' \<and> d = CHR 0x27 then following @ expand_replacement matched preceding following r
      else c # expand_replacement matched preceding following (d # r))"

fun replace_str_from :: "string \<Rightarrow> string \<Rightarrow> string \<Rightarrow> string \<Rightarrow> string" where
  "replace_str_from preceding p r [] = (if p = [] then expand_replacement p (rev preceding) [] r else rev preceding)"
| "replace_str_from preceding p r (c # cs) =
     (if startsWith (c # cs) p
      then rev preceding @ expand_replacement p (rev preceding) (drop (length p) (c # cs)) r @
           drop (length p) (c # cs)
      else replace_str_from (c # preceding) p r cs)"

definition replace_str :: "string \<Rightarrow> string \<Rightarrow> string \<Rightarrow> string" where
  "replace_str s p r = replace_str_from [] p r s"

text \<open>\<^verbatim>\<open>/\s{3,}/\<close> and \<^verbatim>\<open>/\t|\s{3,}/\<close>.\<close>

definition re_ws3 :: matcher where
  "re_ws3 = m_min 3 is_space"

definition re_tab_or_ws3 :: matcher where
  "re_tab_or_ws3 s = (case m_lit [CHR 0x09] s of Some n \<Rightarrow> Some n | None \<Rightarrow> re_ws3 s)"

section \<open>Id generation\<close>

text \<open>
  The three client-side classes each carry their own copy of \<^verbatim>\<open>generateId\<close>:
  \<^verbatim>\<open>text.toLowerCase().replace(/[^a-z0-9\s-]/g, '').replace(/\s+/g, '-').substring(0, 50)\<close>.
  Each copy is transcribed on its own.
\<close>

definition DocumentParser_generateId :: "string \<Rightarrow> string" where
  "DocumentParser_generateId text =
     take 50 (replace_ws_runs ''-''
       (filter (\<lambda>c. is_lower c \<or> is_digit c \<or> is_space c \<or> c = CHR ''-'') (toLowerCase text)))"

definition SectionDetector_generateId :: "string \<Rightarrow> string" where
  "SectionDetector_generateId text =
     take 50 (replace_ws_runs ''-''
       (filter (\<lambda>c. is_lower c \<or> is_digit c \<or> is_space c \<or> c = CHR ''-'') (toLowerCase text)))"

definition TemplateSystem_generateId :: "string \<Rightarrow> string" where
  "TemplateSystem_generateId text =
     take 50 (replace_ws_runs ''-''
       (filter (\<lambda>c. is_lower c \<or> is_digit c \<or> is_space c \<or> c = CHR ''-'') (toLowerCase text)))"

section \<open>SectionDetector\<close>

definition nl :: string where
  "nl = [CHR 0x0A]"

text \<open>
  \<^verbatim>\<open>sectionMappings\<close>, in the order of the object literal (the order in which
  \<^verbatim>\<open>Object.entries\<close> walks it). The keys are distinct.
\<close>

definition sectionMappings :: "(string \<times> string) list" where
  "sectionMappings =
  [(''TABLE OF CONTENTS'', ''toc''),
   (''TOC'', ''toc''),
   (''CONTENTS'', ''toc''),
   (''INDEX'', ''toc''),
   (''<TABLE-OF-CONTENTS>'', ''toc''),
   (''<TOC>'', ''toc''),
   (''KEY TAKEAWAYS'', ''key-takeaways''),
   (''KEY POINTS'', ''key-takeaways''),
   (''MAIN POINTS'', ''key-takeaways''),
   (''SUMMARY POINTS'', ''key-takeaways''),
   (''HIGHLIGHTS'', ''key-takeaways''),
   (''IMPORTANT POINTS'', ''key-takeaways''),
   (''<KEY-TAKEAWAYS>'', ''key-takeaways''),
   (''<KEY-POINTS>'', ''key-takeaways''),
   (''CALL TO ACTION'', ''cta''),
   (''CTA'', ''cta''),
   (''CTA 1'', ''cta1''),
   (''CTA 2'', ''cta2''),
   (''GET STARTED'', ''cta''),
   (''CONTACT US'', ''cta''),
   (''READY TO START'', ''cta''),
   (''WANT TO BUILD'', ''cta''),
   (''NEED HELP'', ''cta''),
   (''GET IN TOUCH'', ''cta''),
   (''<CALL-TO-ACTION>'', ''cta''),
   (''<CTA>'', ''cta''),
   (''FAQ'', ''faq''),
   (''FREQUENTLY ASKED QUESTIONS'', ''faq''),
   (''COMMON QUESTIONS'', ''faq''),
   (''Q&A'', ''faq''),
   (''QUESTIONS'', ''faq''),
   (''<FAQ>'', ''faq''),
   (''STEPS'', ''steps''),
   (''STEP BY STEP'', ''steps''),
   (''PROCESS'', ''steps''),
   (''HOW TO'', ''steps''),
   (''TUTORIAL'', ''steps''),
   (''GUIDE'', ''steps''),
   (''<STEPS>'', ''steps''),
   (''<PROCESS>'', ''steps''),
   (''COMPARISON'', ''comparison''),
   (''VS'', ''comparison''),
   (''PROS AND CONS'', ''pros-cons''),
   (''ADVANTAGES AND DISADVANTAGES'', ''pros-cons''),
   (''BENEFITS AND DRAWBACKS'', ''pros-cons''),
   (''<COMPARISON>'', ''comparison''),
   (''<PROS-AND-CONS>'', ''pros-cons''),
   (''BENEFITS'', ''bullet-list''),
   (''FEATURES'', ''bullet-list''),
   (''ADVANTAGES'', ''bullet-list''),
   (''REQUIREMENTS'', ''bullet-list''),
   (''SPECIFICATIONS'', ''bullet-list''),
   (''<BENEFITS>'', ''bullet-list''),
   (''<FEATURES>'', ''bullet-list''),
   (''<IGNORE>'', ''ignore''),
   (''TABLE'', ''table''),
   (''[TABLE START]'', ''table''),
   (''<TABLE>'', ''table''),
   (''DATA TABLE'', ''table''),
   (''COMPARISON TABLE'', ''table'')]"

definition isStartTag :: "string \<Rightarrow> bool" where
  "isStartTag text = (startsWith text ''<'' \<and> endsWith text ''>'' \<and> \<not> includes_str text ''END>'')"

definition isEndTag :: "string \<Rightarrow> bool" where
  "isEndTag text = (startsWith text ''<'' \<and> includes_str text ''END>'' \<or>
     includes_str text ''[TABLE END]'' \<or> includes_str text ''</TABLE>'')"

text \<open>
  A property read on \<^verbatim>\<open>sectionMappings\<close> is a lookup among its own keys: the program
  reads it at a tag, which starts with \<^verbatim>\<open><\<close>, or at an upper-cased text, and each
  property that an object literal inherits has a lower-case letter in its name.
\<close>

definition getSectionTypeFromTag :: "string \<Rightarrow> string option" where
  "getSectionTypeFromTag tag = map_of sectionMappings tag"

text \<open>The \<^verbatim>\<open>for\<close> loop of \<^verbatim>\<open>detectSectionType\<close> over the entries.\<close>

fun detect_loop :: "(string \<times> string) list \<Rightarrow> string \<Rightarrow> string option" where
  "detect_loop [] normalizedText = None"
| "detect_loop ((keyword, sectionType) # entries) normalizedText =
     (if normalizedText = keyword \<or>
         normalizedText = keyword @ '':'' \<or>
         normalizedText = keyword @ ''.'' \<or>
         (length normalizedText \<le> length keyword + 5 \<and> includes_str normalizedText keyword)
      then Some sectionType
      else detect_loop entries normalizedText)"

definition detectSectionType :: "string \<Rightarrow> string option" where
  "detectSectionType headingText =
     (let normalizedText = trim (toUpperCase headingText) in
      if isStartTag normalizedText then getSectionTypeFromTag normalizedText
      else (case map_of sectionMappings normalizedText of
              Some sectionType \<Rightarrow> Some sectionType
            | None \<Rightarrow> detect_loop sectionMappings normalizedText))"

subsection \<open>Items and values\<close>

text \<open>
  The elements of an \<^verbatim>\<open>items\<close> array are strings (buffered lines) or heading
  records \<^verbatim>\<open>{text, id, level}\<close> (the outline). Interpolating a record into a
  template gives \<^verbatim>\<open>[object Object]\<close>; calling a string method on it raises a
  TypeError.
\<close>

datatype item = Str string | Obj string string nat

datatype js_error = TypeError

fun item_str :: "item \<Rightarrow> string" where
  "item_str (Str s) = s"
| "item_str (Obj t i l) = ''[object Object]''"

fun is_Obj :: "item \<Rightarrow> bool" where
  "is_Obj (Str s) = False"
| "is_Obj (Obj t i l) = True"

text \<open>\<^verbatim>\<open>items[k] || d\<close>, interpolated.\<close>

definition item_or :: "item list \<Rightarrow> nat \<Rightarrow> string \<Rightarrow> string" where
  "item_or items k d =
     (if k < length items
      then (case items ! k of Str s \<Rightarrow> (if s = [] then d else s) | Obj t i l \<Rightarrow> ''[object Object]'')
      else d)"

text \<open>A template that calls \<^verbatim>\<open>trim\<close> or \<^verbatim>\<open>split\<close> on every item.\<close>

definition on_strings :: "(string list \<Rightarrow> string) \<Rightarrow> item list \<Rightarrow> js_error + string" where
  "on_strings f items = (if list_ex is_Obj items then Inl TypeError else Inr (f (map item_str items)))"

text \<open>Decimal digits of a number, as \<^verbatim>\<open>${n}\<close> prints them.\<close>

fun string_of_nat :: "nat \<Rightarrow> string" where
  "string_of_nat n =
     (if n < 10 then [digits ! n] else string_of_nat (n div 10) @ [digits ! (n mod 10)])"

text \<open>\<^verbatim>\<open>s.split(c)\<close> for a one-character separator.\<close>

fun split_on :: "char \<Rightarrow> string \<Rightarrow> string list" where
  "split_on sep [] = [[]]"
| "split_on sep (c # cs) =
     (if c = sep then [] # split_on sep cs
      else (case split_on sep cs of w # ws \<Rightarrow> (c # w) # ws | [] \<Rightarrow> [[c]]))"

subsection \<open>Section templates\<close>

fun toc_entry :: "item \<Rightarrow> string" where
  \<open>toc_entry (Obj t i l) =
     (if t \<noteq> [] \<and> i \<noteq> []
      then ''        <li><a href="#'' @ i @ ''">'' @ t @ ''</a></li>''
      else ''        <li>'' @ ''[object Object]'' @ ''</li>'')\<close>
| \<open>toc_entry (Str s) =
     ''        <li><a href="#'' @ SectionDetector_generateId s @ ''">'' @ s @ ''</a></li>''\<close>

definition toc_template :: "string \<Rightarrow> item list \<Rightarrow> string" where
  \<open>toc_template content items =
     (if items = [] then ''''
      else join nl
             ['''',
              ''<div class="blog_index_cover">'',
              ''    <p class="blog_index_toggle_btn fonts-16 w-700">Table Of Contents</p>'',
              ''    <ol class="blog_index" style="display: none;">'',
              join nl (map toc_entry items),
              ''    </ol>'',
              ''</div>''])\<close>

definition key_takeaways_template :: "string \<Rightarrow> item list \<Rightarrow> string" where
  \<open>key_takeaways_template content items =
     join nl
       ['''',
        ''<ul class="kta-list">'',
        ''    <p>Key Takeaways</p>'',
        join nl (map (\<lambda>item. ''    <li>'' @ item_str item @ ''</li>'') items),
        ''</ul>'']\<close>

definition cta_template :: "string \<Rightarrow> item list \<Rightarrow> string" where
  \<open>cta_template content items =
     (let heading = item_or items 0 ''Ready to Get Started?'';
          description = item_or items 1 ''Get in touch with our experienced team for a free consultation.'';
          buttonText = item_or items 2 ''Schedule Free Consultation'';
          imageUrl = item_or items 3 ''https://www.spaceotechnologies.com/wp-content/uploads/2023/04/cta-img.png''
      in join nl
           ['''',
            ''<div class="callout_newbox">'',
            ''    <div class="left-part">'',
            ''        <p class="call_heading">'' @ heading @ ''</p>'',
            ''        <p>'' @ description @ ''</p>'',
            ''        <div class="sec-btn">'',
            ''            <button class="btn mb0 mt15 open-qouteform" type="button" data-medium="B_1">'',
            ''                '' @ buttonText @ '' <strong class="aero_icon"></strong>'',
            ''            </button>'',
            ''        </div>'',
            ''    </div>'',
            ''    <div class="right-part">'',
            ''        <img src="'' @ imageUrl @ ''" alt="CTA Image" width="278" height="337" class="alignnone size-full wp-image-194985" />'',
            ''    </div>'',
            ''</div>''])\<close>

definition cta1_template :: "string \<Rightarrow> item list \<Rightarrow> string" where
  \<open>cta1_template content items =
     (let heading = item_or items 0 ''Want To Create An Android Application?'';
          description = item_or items 1 ''Looking to Create An Android app? Get in touch with our experienced Android app developers for a free consultation.'';
          buttonText = item_or items 2 ''Schedule Free Consultation'';
          imageUrl = item_or items 3 ''https://www.spaceotechnologies.com/wp-content/uploads/2023/04/cta-img.png''
      in join nl
           ['''',
            ''<div class="callout_newbox" style="display: flex; align-items: center; background: #f8f9fa; padding: 30px; border-radius: 10px; margin: 20px 0; max-width: 100%; overflow: hidden;">'',
            ''    <div class="left-part" style="flex: 1; padding-right: 30px; min-width: 0;">'',
            ''        <h3 class="call_heading" style="font-size: 24px; font-weight: bold; margin: 0 0 15px 0; color: #333; line-height: 1.3;">'' @ heading @ ''</h3>'',
            ''        <p style="font-size: 16px; line-height: 1.6; color: #666; margin: 0 0 20px 0;">'' @ description @ ''</p>'',
            ''        <div class="sec-btn">'',
            ''            <button class="btn mb0 mt15 open-qouteform" type="button" data-medium="B_1" style="background: #e74c3c; color: white; padding: 12px 25px; border: none; border-radius: 5px; font-weight: bold; cursor: pointer; font-size: 14px;">'',
            ''                '' @ buttonText @ '' <strong class="aero_icon" style="margin-left: 5px;">'' @ [CHR 0xE2, CHR 0x86, CHR 0x92] @ ''</strong>'',
            ''            </button>'',
            ''        </div>'',
            ''    </div>'',
            ''    <div class="right-part" style="flex: 0 0 280px; max-width: 280px;">'',
            ''        <img src="'' @ imageUrl @ ''" alt="Cta Image" style="width: 100%; height: auto; border-radius: 10px; display: block;" />'',
            ''    </div>'',
            ''</div>'',
            ''<style>'',
            ''@media (max-width: 768px) {'',
            ''    .callout_newbox {'',
            ''        flex-direction: column !important;'',
            ''        text-align: center !important;'',
            ''    }'',
            ''    .callout_newbox .left-part {'',
            ''        padding-right: 0 !important;'',
            ''        margin-bottom: 20px !important;'',
            ''    }'',
            ''    .callout_newbox .right-part {'',
            ''        flex: none !important;'',
            ''        max-width: 250px !important;'',
            ''        margin: 0 auto !important;'',
            ''    }'',
            ''}'',
            ''</style>''])\<close>

definition cta2_template :: "string \<Rightarrow> item list \<Rightarrow> string" where
  \<open>cta2_template content items =
     (let heading = item_or items 0 ''Get a Free Mobile App Development Strategy Session'';
          description = item_or items 1 ''Discover the best approach to building a custom mobile app tailored to your business. Get expert insights with no obligation.'';
          buttonText = item_or items 2 ''Claim My Free Strategy Session''
      in join nl
           ['''',
            ''<div class="callout_box">'',
            ''    <p class="call_heading">'' @ heading @ ''</p>'',
            ''    <p>'' @ description @ ''</p>'',
            ''    <div class="sec-btn">'',
            ''        <button class="btn mb0 mt15 newsletter-green" type="button" data-toggle="modal" data-target="#popform">'',
            ''            '' @ buttonText @ '' <strong class="aero_icon"></strong>'',
            ''        </button>'',
            ''    </div>'',
            ''</div>''])\<close>

text \<open>\<^verbatim>\<open>isLikelyQuestion\<close> and \<^verbatim>\<open>processFAQItems\<close>.\<close>

definition questionWords :: "string list" where
  "questionWords = [''how'', ''what'', ''when'', ''where'', ''why'', ''who'', ''which'', ''can'',
     ''will'', ''should'', ''is'', ''are'', ''do'', ''does'']"

definition isLikelyQuestion :: "string \<Rightarrow> bool" where
  "isLikelyQuestion text =
     (let firstWord = hd (split_on CHR '' '' (toLowerCase text)) in
      firstWord \<in> set questionWords \<and> length text > 10)"

definition faq_question_html :: "string \<Rightarrow> string" where
  \<open>faq_question_html currentQuestion =
     ''    <h3 id="'' @ SectionDetector_generateId currentQuestion @ ''">'' @ currentQuestion @ ''</h3>'' @ nl\<close>

definition faq_paragraph_html :: "string \<Rightarrow> string" where
  \<open>faq_paragraph_html paragraph = ''    <p>'' @ paragraph @ ''</p>'' @ nl\<close>

text \<open>
  The state of the loop is \<^verbatim>\<open>faqHtml\<close>, \<^verbatim>\<open>currentQuestion\<close> and
  \<^verbatim>\<open>answerParagraphs\<close>; \<open>faq_step\<close> is one iteration, \<open>faq_finish\<close> the code after
  the loop.
\<close>

definition faq_step :: "string \<times> string \<times> string list \<Rightarrow> string \<Rightarrow> string \<times> string \<times> string list" where
  "faq_step st raw =
     (case st of (faqHtml, currentQuestion, answerParagraphs) \<Rightarrow>
      let item = trim raw in
      if item = [] then st
      else if endsWith item ''?'' \<or> isLikelyQuestion item then
        ((if currentQuestion \<noteq> [] \<and> answerParagraphs \<noteq> []
          then faqHtml @ faq_question_html currentQuestion @
               concat (map faq_paragraph_html answerParagraphs) @ nl
          else faqHtml),
         item, [])
      else if currentQuestion \<noteq> [] then (faqHtml, currentQuestion, answerParagraphs @ [item])
      else if length item > 20 then (faqHtml, currentQuestion, answerParagraphs @ [item])
      else st)"

definition faq_finish :: "string \<times> string \<times> string list \<Rightarrow> string" where
  "faq_finish st =
     (case st of (faqHtml, currentQuestion, answerParagraphs) \<Rightarrow>
      if currentQuestion \<noteq> [] \<and> answerParagraphs \<noteq> []
      then faqHtml @ faq_question_html currentQuestion @
           concat (map faq_paragraph_html answerParagraphs)
      else if currentQuestion = [] \<and> answerParagraphs \<noteq> []
      then faqHtml @ concat (map faq_paragraph_html answerParagraphs)
      else faqHtml)"

definition faq_html :: "string list \<Rightarrow> string" where
  "faq_html items = faq_finish (foldl faq_step ([], [], []) items)"

definition processFAQItems :: "item list \<Rightarrow> js_error + string" where
  "processFAQItems items = on_strings faq_html items"

definition faq_template :: "string \<Rightarrow> item list \<Rightarrow> js_error + string" where
  \<open>faq_template content items =
     (case processFAQItems items of
        Inl e \<Rightarrow> Inl e
      | Inr faqItems \<Rightarrow> Inr (join nl
                                          ['''',
                                           ''<div class="faq_blog">'',
                                           ''    <h2 id="frequently-asked-questions">Frequently Asked Questions</h2>'',
                                           faqItems,
                                           ''</div>'']))\<close>

text \<open>The \<^verbatim>\<open>steps\<close> template: \<open>steps_item\<close> is the callback of \<^verbatim>\<open>items.map\<close>.\<close>

definition steps_item :: "string \<Rightarrow> nat \<Rightarrow> string" where
  \<open>steps_item item index =
     (let parts = split_on CHR '':'' item;
          title = (if hd parts \<noteq> [] then hd parts else ''Step '' @ string_of_nat (index + 1));
          description = (let d = trim (join '':'' (tl parts)) in if d \<noteq> [] then d else item)
      in join nl
           [''    <li>'',
            ''        <h3>'' @ title @ ''</h3>'',
            ''        <p>'' @ description @ ''</p>'',
            ''    </li>''])\<close>

definition steps_html :: "string list \<Rightarrow> string" where
  \<open>steps_html items =
     join nl
       ['''',
        ''<ol class="listing-bx">'',
        join nl (map2 steps_item items [0..<length items]),
        ''</ol>'']\<close>

definition steps_template :: "string \<Rightarrow> item list \<Rightarrow> js_error + string" where
  "steps_template content items = on_strings steps_html items"

definition pros_cons_template :: "string \<Rightarrow> item list \<Rightarrow> string" where
  \<open>pros_cons_template content items =
     (let midPoint = (length items + 1) div 2;
          pros = take midPoint items;
          cons = drop midPoint items
      in join nl
           ['''',
            ''<div class="table-responsive expense_track">'',
            ''    <table class="table table-bordered table-striped" dir="ltr" border="1" cellspacing="0" cellpadding="0">'',
            ''        <tbody>'',
            ''            <tr>'',
            ''                <th style="text-align: center; background: green; color: #fff; width: 50%;"><strong>Pros</strong></th>'',
            ''                <th style="text-align: center; background: red; color: #fff; width: 50%;">Cons</th>'',
            ''            </tr>'',
            ''            <tr>'',
            ''                <td>'',
            ''                    <ul class="pros" style="padding: 0; margin: 0;">'',
            join nl (map (\<lambda>item. ''                        <li><span style="font-weight: 400;">'' @ item_str item @ ''</span></li>'') pros),
            ''                    </ul>'',
            ''                </td>'',
            ''                <td>'',
            ''                    <ul class="cons" style="padding: 0; margin: 0;">'',
            join nl (map (\<lambda>item. ''                        <li><span style="font-weight: 400;">'' @ item_str item @ ''</span></li>'') cons),
            ''                    </ul>'',
            ''                </td>'',
            ''            </tr>'',
            ''        </tbody>'',
            ''    </table>'',
            ''</div>''])\<close>

definition bullet_list_template :: "string \<Rightarrow> item list \<Rightarrow> string" where
  \<open>bullet_list_template content items =
     join nl
       ['''',
        ''<ul class="bullet-new-box">'',
        join nl (map (\<lambda>item. ''    <li>'' @ item_str item @ ''</li>'') items),
        ''</ul>'']\<close>

definition comparison_row :: "string \<Rightarrow> string" where
  \<open>comparison_row item =
     (let parts = map trim (split_on CHR ''|'' item) in
      if 3 \<le> length parts
      then join nl
             [''        <tr>'',
              ''            <td>'' @ parts ! 0 @ ''</td>'',
              ''            <td>'' @ parts ! 1 @ ''</td>'',
              ''            <td>'' @ parts ! 2 @ ''</td>'',
              ''        </tr>'']
      else ''        <tr><td colspan="3">'' @ item @ ''</td></tr>'')\<close>

definition comparison_html :: "string list \<Rightarrow> string" where
  \<open>comparison_html items =
     join nl
       ['''',
        ''<table class="comparison-table table table-bordered">'',
        ''    <thead>'',
        ''        <tr class="table-header">'',
        ''            <th>Feature</th>'',
        ''            <th>Option 1</th>'',
        ''            <th>Option 2</th>'',
        ''        </tr>'',
        ''    </thead>'',
        ''    <tbody>'',
        join nl (map comparison_row items),
        ''    </tbody>'',
        ''</table>'']\<close>

definition comparison_template :: "string \<Rightarrow> item list \<Rightarrow> js_error + string" where
  "comparison_template content items = on_strings comparison_html items"

definition ignore_template :: "string \<Rightarrow> item list \<Rightarrow> string" where
  "ignore_template content items = ''''"

text \<open>
  \<^verbatim>\<open>processTableItems\<close>. \<open>table_columns\<close> is the column list of one trimmed,
  non-empty item; \<open>table_scan\<close> is the first loop, \<open>i\<close> the index of the item, and its
  result the pair of \<^verbatim>\<open>headers\<close> and \<^verbatim>\<open>tableData\<close>.
\<close>

definition table_columns :: "string \<Rightarrow> string list" where
  "table_columns item =
     (if includes_str item ''|''
      then filter (\<lambda>col. col \<noteq> []) (map trim (split_on CHR ''|'' item))
      else if includes_str item [CHR 0x09] \<or> test_re re_ws3 item
      then filter (\<lambda>col. col \<noteq> []) (map trim (split_re re_tab_or_ws3 item))
      else [item])"

fun table_scan :: "nat \<Rightarrow> string list \<Rightarrow> string list \<times> string list list \<Rightarrow> string list \<times> string list list" where
  "table_scan i [] acc = acc"
| "table_scan i (raw # rest) (headers, tableData) =
     (let item = trim raw in
      if item = [] then table_scan (i + 1) rest (headers, tableData)
      else if i = 0 then table_scan (i + 1) rest (table_columns item, tableData)
      else table_scan (i + 1) rest (headers, tableData @ [table_columns item]))"

definition table_header_html :: "string list \<Rightarrow> string" where
  \<open>table_header_html headers =
     (if headers \<noteq> []
      then nl @ ''            <tr>'' @ nl @
           concat (map (\<lambda>header. ''                <th style="width: '' @
                          string_of_nat (100 div length headers) @ ''%;">'' @ header @ ''</th>'' @ nl)
                       headers) @
           ''            </tr>''
      else '''')\<close>

definition table_row_html :: "nat \<Rightarrow> string list \<Rightarrow> string" where
  \<open>table_row_html width row =
     nl @ ''            <tr>'' @ nl @
     concat (map (\<lambda>cell. ''                <td>'' @ cell @ ''</td>'' @ nl)
                 (row @ replicate (width - length row) '''')) @
     ''            </tr>''\<close>

definition table_html :: "string list \<Rightarrow> string" where
  \<open>table_html items =
     (if items = [] then ''''
      else (case table_scan 0 items ([], []) of (headers, tableData) \<Rightarrow>
        (join nl
          ['''',
           ''<div class="table-responsive travel_table v-middle">'',
           ''    <table class="table table-bordered" dir="ltr" border="1" cellspacing="0" cellpadding="0">'',
           ''        <tbody>'']) @
        table_header_html headers @
        concat (map (table_row_html (length headers)) tableData) @
        (join nl
          ['''',
           ''        </tbody>'',
           ''    </table>'',
           ''</div>''])))\<close>

definition processTableItems :: "item list \<Rightarrow> js_error + string" where
  "processTableItems items = on_strings table_html items"

definition table_template :: "string \<Rightarrow> item list \<Rightarrow> js_error + string" where
  "table_template content items = processTableItems items"

text \<open>\<^verbatim>\<open>sectionTemplates\<close>, the object that \<^verbatim>\<open>initializeSectionTemplates\<close> returns.\<close>

definition sectionTemplates :: "(string \<times> (string \<Rightarrow> item list \<Rightarrow> js_error + string)) list" where
  "sectionTemplates =
    [(''toc'', \<lambda>content items. Inr (toc_template content items)),
     (''key-takeaways'', \<lambda>content items. Inr (key_takeaways_template content items)),
     (''cta'', \<lambda>content items. Inr (cta_template content items)),
     (''cta1'', \<lambda>content items. Inr (cta1_template content items)),
     (''cta2'', \<lambda>content items. Inr (cta2_template content items)),
     (''faq'', faq_template),
     (''steps'', steps_template),
     (''pros-cons'', \<lambda>content items. Inr (pros_cons_template content items)),
     (''bullet-list'', \<lambda>content items. Inr (bullet_list_template content items)),
     (''comparison'', comparison_template),
     (''ignore'', \<lambda>content items. Inr (ignore_template content items)),
     (''table'', table_template)]"

definition processRegularContent :: "string \<Rightarrow> string" where
  "processRegularContent content = ''<p>'' @ content @ ''</p>''"

text \<open>
  \<^verbatim>\<open>sectionTemplates\<close> is an object literal, and \<^verbatim>\<open>this.sectionTemplates[sectionType]\<close>
  is a property read with a string that the caller chooses: where the object has no
  such key of its own, the read goes on to \<^verbatim>\<open>Object.prototype\<close>. The names below are
  the properties found there. Each is truthy, so \<^verbatim>\<open>processSectionContent\<close> calls it,
  as \<^verbatim>\<open>template(content, items)\<close>, with \<^verbatim>\<open>this\<close> undefined (a class body is strict
  code):
  \<^item> \<^verbatim>\<open>__proto__\<close> reads as the prototype object, which is not callable: TypeError;
  \<^item> \<^verbatim>\<open>constructor\<close> is \<^verbatim>\<open>Object\<close>, which wraps the string \<^verbatim>\<open>content\<close> in a
    String object;
  \<^item> \<^verbatim>\<open>isPrototypeOf\<close> answers \<^verbatim>\<open>false\<close> for an argument that is not an object;
  \<^item> \<^verbatim>\<open>toString\<close> answers \<^verbatim>\<open>[object Undefined]\<close>;
  \<^item> the others convert \<^verbatim>\<open>this\<close> to an object first: TypeError.
\<close>

datatype js_value = JString string | JStringObject string | JBoolean bool

definition object_prototype_names :: "string list" where
  "object_prototype_names =
    [''constructor'', ''__defineGetter__'', ''__defineSetter__'', ''hasOwnProperty'',
     ''__lookupGetter__'', ''__lookupSetter__'', ''isPrototypeOf'', ''propertyIsEnumerable'',
     ''toString'', ''valueOf'', ''__proto__'', ''toLocaleString'']"

definition call_inherited :: "string \<Rightarrow> string \<Rightarrow> js_error + js_value" where
  "call_inherited name content =
     (if name = ''constructor'' then Inr (JStringObject content)
      else if name = ''isPrototypeOf'' then Inr (JBoolean False)
      else if name = ''toString'' then Inr (JString ''[object Undefined]'')
      else Inl TypeError)"

definition processSectionContent :: "string \<Rightarrow> string \<Rightarrow> item list \<Rightarrow> js_error + js_value" where
  "processSectionContent sectionType content items =
     (case map_of sectionTemplates sectionType of
        Some template \<Rightarrow>
          (case template content items of Inl e \<Rightarrow> Inl e | Inr html \<Rightarrow> Inr (JString html))
      | None \<Rightarrow>
          if sectionType \<in> set object_prototype_names then call_inherited sectionType content
          else Inr (JString (processRegularContent content)))"

subsection \<open>The question and answer groups of a FAQ buffer\<close>







section \<open>DocumentParser: line classification\<close>

text \<open>
  \<^verbatim>\<open>/\*\*(.*?)\*\*/\<close>, \<^verbatim>\<open>/<strong>(.*?)<\/strong>/i\<close> and \<^verbatim>\<open>/__(.*?)__/\<close>: the length
  of the match and the text of the group.
\<close>

definition re_bold_stars :: "string \<Rightarrow> (nat \<times> string) option" where
  "re_bold_stars = m_between (m_lit ''**'') dot (m_lit ''**'')"

definition re_strong_tag :: "string \<Rightarrow> (nat \<times> string) option" where
  "re_strong_tag = m_between (m_lit_ci ''<strong>'') dot (m_lit_ci ''</strong>'')"

definition re_bold_underscores :: "string \<Rightarrow> (nat \<times> string) option" where
  "re_bold_underscores = m_between (m_lit ''__'') dot (m_lit ''__'')"

definition hasBoldFormatting :: "string \<Rightarrow> bool" where
  "hasBoldFormatting text = (test_re re_bold_stars text \<or> test_re re_strong_tag text)"

text \<open>\<^verbatim>\<open>text.replace(/\*\*.*?\*\*|<strong>.*?<\/strong>/gi, '').trim()\<close>.\<close>

definition beforeAfterContext :: "string \<Rightarrow> string" where
  "beforeAfterContext text =
     trim (replace_by
       (\<lambda>s. case re_bold_stars s of
               Some (n, g) \<Rightarrow> Some (n, '''')
             | None \<Rightarrow> (case re_strong_tag s of Some (n, g) \<Rightarrow> Some (n, '''') | None \<Rightarrow> None))
       text)"

text \<open>\<^verbatim>\<open>/^[A-Z\s\-:]+$/\<close>, \<^verbatim>\<open>/^\d+\.\s+/\<close>, \<^verbatim>\<open>/^\d+\.\s+[A-Z]/\<close>, \<^verbatim>\<open>/^[A-Z]/\<close>.\<close>

definition caps_only :: "string \<Rightarrow> bool" where
  "caps_only text =
     (text \<noteq> [] \<and> list_all (\<lambda>c. is_upper c \<or> is_space c \<or> c = CHR ''-'' \<or> c = CHR '':'') text)"

definition re_numbered :: matcher where
  "re_numbered = m_seq (m_min 1 is_digit) (m_seq (m_lit ''.'') (m_min 1 is_space))"

definition re_numbered_title :: matcher where
  "re_numbered_title = m_seq re_numbered (m_class is_upper)"

definition starts_upper :: "string \<Rightarrow> bool" where
  "starts_upper text = (matches (m_class is_upper) text)"

text \<open>\<^verbatim>\<open>text.split(/\s+/)\<close>.\<close>

definition words_of :: "string \<Rightarrow> string list" where
  "words_of text = split_re (m_min 1 is_space) text"

text \<open>
  The words that count for a Title Case heading. The test
  \<^verbatim>\<open>titleCaseWords.length >= words.length * 0.6\<close> is on at most 10 words, where the
  product in floating point compares with a whole number as six tenths do.
\<close>

definition titleCaseWords :: "string list \<Rightarrow> string list" where
  "titleCaseWords words =
     filter (\<lambda>word. length word > 0 \<and> starts_upper word \<and> length word > 2) words"

definition mostly_title_case :: "string list \<Rightarrow> bool" where
  "mostly_title_case words = (6 * length words \<le> 10 * length (titleCaseWords words))"

definition isHeading :: "string \<Rightarrow> bool" where
  "isHeading line =
     (let text = trim line; words = words_of text in
      if length text > 150 then False
      else if hasBoldFormatting text \<and> length text > 5 \<and> length text < 100
      then \<not> length (beforeAfterContext text) > 10
      else if length text > 5 \<and> text = toUpperCase text \<and> caps_only text \<and> length words \<le> 8
      then True
      else if matches re_numbered_title text then True
      else if endsWith text ''?'' \<and> length text > 10 \<and> length text < 80 then True
      else if length words \<ge> 2 \<and> length words \<le> 10 \<and> mostly_title_case words then True
      else if includes_str text ''_'' \<and> starts_upper text then True
      else if endsWith text '':'' \<and> length text > 5 \<and> length text < 80 \<and> starts_upper text
      then True
      else False)"

text \<open>\<^verbatim>\<open>/^\d+\.\d+\.\s+/\<close> and \<^verbatim>\<open>/^\d+\.\d+\.\d+\.\s+/\<close>.\<close>

definition re_numbered2 :: matcher where
  "re_numbered2 = m_seq (m_min 1 is_digit) (m_seq (m_lit ''.'') re_numbered)"

definition re_numbered3 :: matcher where
  "re_numbered3 = m_seq (m_min 1 is_digit) (m_seq (m_lit ''.'') re_numbered2)"

text \<open>
  The replacement that \<^verbatim>\<open>getHeadingLevel\<close> makes before it counts the words of a
  bold heading: every \<^verbatim>\<open>**\<close> and every opening or closing \<^verbatim>\<open>strong\<close> tag, in
  either case, is removed.
\<close>

definition strip_bold_marks :: "string \<Rightarrow> string" where
  "strip_bold_marks text =
     replace_re
       (\<lambda>s. case m_lit ''**'' s of
               Some n \<Rightarrow> Some n
             | None \<Rightarrow> (case m_lit_ci ''<strong>'' s of
                          Some n \<Rightarrow> Some n
                        | None \<Rightarrow> m_lit_ci ''</strong>'' s))
       '''' text"

definition level_by_words :: "string list \<Rightarrow> nat" where
  "level_by_words words =
     (if length words \<le> 3 then 2 else if length words \<le> 6 then 3 else 4)"

definition getHeadingLevel :: "string \<Rightarrow> nat" where
  "getHeadingLevel line =
     (let text = trim line; words = words_of text in
      if matches re_numbered text then 2
      else if matches re_numbered2 text then 3
      else if matches re_numbered3 text then 4
      else if hasBoldFormatting text \<and> length (beforeAfterContext text) \<le> 5
      then level_by_words (words_of (strip_bold_marks text))
      else if endsWith text ''?'' then 3
      else if text = toUpperCase text \<and> caps_only text then level_by_words words
      else if length words \<ge> 2 \<and> length words \<le> 10 \<and> mostly_title_case words
      then level_by_words words
      else if endsWith text '':'' then 3
      else if includes_str text ''_'' then 3
      else 2)"

text \<open>
  \<^verbatim>\<open>cleanHeadingText\<close>. \<^verbatim>\<open>/^\d+(\.\d+)*\.\s+/\<close> is the numbered prefix; the two
  replacements with \<^verbatim>\<open><strong>$1</strong>\<close> rewrite the bold marks; \<^verbatim>\<open>/_{2,}/g\<close>
  and \<^verbatim>\<open>/:$/\<close> are removed.
\<close>

definition re_number_prefix :: matcher where
  "re_number_prefix =
     m_seq (m_min 1 is_digit)
       (m_seq (m_min_times 0 (m_seq (m_lit ''.'') (m_min 1 is_digit)))
         (m_seq (m_lit ''.'') (m_min 1 is_space)))"

definition strong_of :: "(string \<Rightarrow> (nat \<times> string) option) \<Rightarrow> string \<Rightarrow> (nat \<times> string) option" where
  "strong_of m s =
     (case m s of None \<Rightarrow> None | Some (n, g) \<Rightarrow> Some (n, ''<strong>'' @ g @ ''</strong>''))"

definition remove_final_colon :: "string \<Rightarrow> string" where
  "remove_final_colon s = (if endsWith s '':'' then butlast s else s)"

definition cleanHeadingText :: "string \<Rightarrow> string" where
  "cleanHeadingText line =
     (let c0 = trim line;
          c1 = replace_anchored re_number_prefix '''' c0;
          c2 = replace_by (strong_of re_bold_stars) c1;
          c3 = replace_by (strong_of re_strong_tag) c2;
          c4 = replace_re (m_min 2 (\<lambda>c. c = CHR ''_'')) '''' c3;
          c5 = remove_final_colon c4
      in trim c5)"

text \<open>
  List items. The bullet of \<^verbatim>\<open>/^[-\<bullet>*]\s+/\<close> is the one character beyond ASCII
  that the program tests for; it stands here as the three bytes of its UTF-8 form.
  \<^verbatim>\<open>cleanListItem\<close> removes \<^verbatim>\<open>/^[-\<bullet>*\d+.]\s+/\<close>, one character of the class
  and the white space after it.
\<close>

definition bullet :: string where
  "bullet = [CHR 0xE2, CHR 0x80, CHR 0xA2]"

definition m_list_marker :: matcher where
  "m_list_marker s =
     (case m_class (\<lambda>c. c = CHR ''-'' \<or> c = CHR ''*'') s of
        Some n \<Rightarrow> Some n
      | None \<Rightarrow> m_lit bullet s)"

definition m_list_prefix_char :: matcher where
  "m_list_prefix_char s =
     (case m_class (\<lambda>c. c = CHR ''-'' \<or> c = CHR ''*'' \<or> is_digit c \<or> c = CHR ''+'' \<or> c = CHR ''.'') s of
        Some n \<Rightarrow> Some n
      | None \<Rightarrow> m_lit bullet s)"

definition isListItem :: "string \<Rightarrow> bool" where
  "isListItem line =
     (matches (m_seq m_list_marker (m_min 1 is_space)) line \<or> matches re_numbered line)"

definition getListType :: "string \<Rightarrow> string" where
  "getListType line =
     (if matches (m_seq (m_min 1 is_digit) (m_lit ''.'')) line then ''ordered'' else ''unordered'')"

definition cleanListItem :: "string \<Rightarrow> string" where
  "cleanListItem line =
     trim (replace_anchored (m_seq m_list_prefix_char (m_min 1 is_space)) '''' line)"

definition openList :: "string \<Rightarrow> string" where
  \<open>openList type =
     (let className = (if type = ''ordered'' then ''listing-bx'' else ''bullet-new-box'');
          tag = (if type = ''ordered'' then ''ol'' else ''ul'')
      in ''<'' @ tag @ '' class="'' @ className @ ''">'' @ nl)\<close>

text \<open>\<^verbatim>\<open>closeList\<close> is also called with \<^verbatim>\<open>null\<close>, which is not \<^verbatim>\<open>'ordered'\<close>.\<close>

definition closeList :: "string option \<Rightarrow> string" where
  "closeList type =
     (let tag = (if type = Some ''ordered'' then ''ol'' else ''ul'') in ''</'' @ tag @ ''>'' @ nl)"

text \<open>\<^verbatim>\<open>isTableRow\<close> and \<^verbatim>\<open>collectTableRows\<close>.\<close>

definition isTableRow :: "string \<Rightarrow> bool" where
  "isTableRow line =
     (if includes_str line ''|'' \<and> length (split_on CHR ''|'' line) \<ge> 2 then True
      else if includes_str line [CHR 0x09] \<and> length (split_on CHR 0x09 line) \<ge> 2 then True
      else if test_re re_ws3 line \<and> length (split_re re_ws3 line) \<ge> 2 then True
      else False)"

text \<open>
  \<open>collectTableRows tableRows lines\<close> is the loop from \<^verbatim>\<open>startIndex\<close>, \<open>lines\<close> the
  lines from that index on. After an empty line the loop looks ahead, past the empty
  lines, and tests the line found there as it is, not trimmed.
\<close>

fun collectTableRows :: "string list \<Rightarrow> string list \<Rightarrow> string list" where
  "collectTableRows tableRows [] = tableRows"
| "collectTableRows tableRows (raw # rest) =
     (let line = trim raw in
      if line = [] then
        (if tableRows \<noteq> [] then
           (let ahead = dropWhile (\<lambda>l. trim l = []) rest in
            if ahead \<noteq> [] \<and> isTableRow (hd ahead) then collectTableRows tableRows rest
            else tableRows)
         else collectTableRows tableRows rest)
      else if isTableRow line then collectTableRows (tableRows @ [line]) rest
      else tableRows)"

text \<open>
  \<^verbatim>\<open>formatRichText\<close>. The two expressions for italics look behind and ahead:
  \<^verbatim>\<open>/(?<!\*)\*([^*]+)\*(?!\*)/g\<close>, and the same with an underscore. \<open>replace_ctx\<close>
  is the global replacement with the character before the position at hand.
\<close>

function replace_ctx :: "(char option \<Rightarrow> string \<Rightarrow> (nat \<times> string) option) \<Rightarrow> char option \<Rightarrow> string \<Rightarrow> string" where
  "replace_ctx m prev [] = []"
| "replace_ctx m prev (c # cs) =
     (case m prev (c # cs) of
        Some (Suc n, r) \<Rightarrow> r @ replace_ctx m (Some (last (take (Suc n) (c # cs)))) (drop n cs)
      | _ \<Rightarrow> c # replace_ctx m (Some c) cs)"
  by pat_completeness auto
termination
  by (relation "measure (\<lambda>(m, prev, s). length s)") auto

definition re_emphasis :: "char \<Rightarrow> char option \<Rightarrow> string \<Rightarrow> (nat \<times> string) option" where
  "re_emphasis d prev s =
     (if prev \<noteq> Some d \<and> startsWith s [d]
      then (let body = takeWhile (\<lambda>c. c \<noteq> d) (tl s); rest = drop (length body) (tl s) in
            if body \<noteq> [] \<and> startsWith rest [d] \<and> \<not> startsWith (tl rest) [d]
            then Some (length body + 2, ''<em>'' @ body @ ''</em>'')
            else None)
      else None)"

text \<open>\<^verbatim>\<open>/\[([^\]]+)\]\(([^)]+)\)/g\<close>, replaced by \<^verbatim>\<open><a href="$2">$1</a>\<close>.\<close>

definition re_link :: "string \<Rightarrow> (nat \<times> string) option" where
  \<open>re_link s =
     (if startsWith s ''[''
      then (let label = takeWhile (\<lambda>c. c \<noteq> CHR '']'') (tl s);
                rest = drop (length label) (tl s);
                url = takeWhile (\<lambda>c. c \<noteq> CHR '')'') (drop 2 rest);
                rest' = drop (length url) (drop 2 rest)
            in if label \<noteq> [] \<and> startsWith rest '']('' \<and> url \<noteq> [] \<and> startsWith rest' '')''
               then Some (length label + length url + 4, ''<a href="'' @ url @ ''">'' @ label @ ''</a>'')
               else None)
      else None)\<close>

definition formatRichText :: "string \<Rightarrow> string" where
  "formatRichText text =
     (let f1 = replace_by (strong_of re_bold_stars) text;
          f2 = replace_by (strong_of re_bold_underscores) f1;
          f3 = replace_ctx (re_emphasis CHR ''*'') None f2;
          f4 = replace_ctx (re_emphasis CHR ''_'') None f3
      in replace_by re_link f4)"

section \<open>DocumentParser: cleanupHTML\<close>

text \<open>\<^verbatim>\<open>s.match(re)\<close> with the \<^verbatim>\<open>g\<close> flag: the successive matches, left to right.\<close>

function match_all :: "matcher \<Rightarrow> string \<Rightarrow> string list" where
  "match_all m [] = []"
| "match_all m (c # cs) =
     (case m (c # cs) of
        Some (Suc n) \<Rightarrow> take (Suc n) (c # cs) # match_all m (drop n cs)
      | _ \<Rightarrow> match_all m cs)"
  by pat_completeness auto
termination
  by (relation "measure (\<lambda>(m, s). length s)") auto

definition m_lazy :: "(char \<Rightarrow> bool) \<Rightarrow> matcher \<Rightarrow> matcher" where
  "m_lazy X close s = (case lazy_until X close s of None \<Rightarrow> None | Some (k, n) \<Rightarrow> Some (k + n))"

text \<open>
  Steps 1 and 3. \<^verbatim>\<open>/<div class="blog_index_cover"[\s\S]*?<\/div>/gi\<close> and the same
  with \<^verbatim>\<open>faq_blog\<close>: from the opening text to the first \<^verbatim>\<open></div>\<close> after it. Every
  match but the first is then removed with \<^verbatim>\<open>cleanedHtml.replace(sections[i], '')\<close>,
  which removes the first occurrence of that text.
\<close>

definition re_div_block :: "string \<Rightarrow> matcher" where
  \<open>re_div_block cls =
     m_seq (m_lit_ci (''<div class="'' @ cls @ ''"'')) (m_lazy (\<lambda>c. True) (m_lit_ci ''</div>''))\<close>

definition remove_duplicate_blocks :: "string \<Rightarrow> string \<Rightarrow> string" where
  "remove_duplicate_blocks cls cleanedHtml =
     (let sections = match_all (re_div_block cls) cleanedHtml in
      if 1 < length sections
      then foldl (\<lambda>h section. replace_str h section '''') cleanedHtml (tl sections)
      else cleanedHtml)"

text \<open>
  Step 2. \<^verbatim>\<open>/<h([1-6])([^>]*?)>(.*?)<\/h[1-6]>/gi\<close>: the length of the match, the
  level digit and the text. A heading whose key \<^verbatim>\<open>h${level}:${text.trim()}\<close> was seen
  before is removed.
\<close>

definition is_level_digit :: "char \<Rightarrow> bool" where
  "is_level_digit c = (c \<in> set ''123456'')"

definition re_heading_close :: matcher where
  "re_heading_close = m_seq (m_lit_ci ''</h'') (m_seq (m_class is_level_digit) (m_lit ''>''))"

definition re_heading :: "string \<Rightarrow> (nat \<times> char \<times> string) option" where
  "re_heading s =
     (if startsWith_ci s ''<h'' \<and> matches (m_class is_level_digit) (drop 2 s)
      then (case lazy_until (\<lambda>c. c \<noteq> CHR ''>'') (m_lit ''>'') (drop 3 s) of
              None \<Rightarrow> None
            | Some (a, b) \<Rightarrow>
                (case lazy_until dot re_heading_close (drop (3 + a + b) s) of
                   None \<Rightarrow> None
                 | Some (k, n) \<Rightarrow>
                     Some (3 + a + b + k + n, s ! 2, take k (drop (3 + a + b) s))))
      else None)"

function remove_duplicate_headings :: "string list \<Rightarrow> string \<Rightarrow> string" where
  "remove_duplicate_headings seenHeadings [] = []"
| "remove_duplicate_headings seenHeadings (c # cs) =
     (case re_heading (c # cs) of
        Some (Suc n, level, text) \<Rightarrow>
          (let headingKey = ''h'' @ [level] @ '':'' @ trim text in
           if headingKey \<in> set seenHeadings
           then remove_duplicate_headings seenHeadings (drop n cs)
           else take (Suc n) (c # cs) @
                remove_duplicate_headings (headingKey # seenHeadings) (drop n cs))
      | _ \<Rightarrow> c # remove_duplicate_headings seenHeadings cs)"
  by pat_completeness auto
termination
  by (relation "measure (\<lambda>(seen, s). length s)") auto

text \<open>
  Step 4. \<^verbatim>\<open>/<p>\s*<\/p>/gi\<close>, \<^verbatim>\<open>/<p>\s+<\/p>/gi\<close>, \<^verbatim>\<open>/\n\s*\n\s*\n/g\<close> and
  \<^verbatim>\<open>/\n{3,}/g\<close>. The third matches from a line feed whose following run of white
  space holds two more line feeds, up to the last line feed of that run.
\<close>

definition re_empty_p :: matcher where
  "re_empty_p = m_seq (m_lit_ci ''<p>'') (m_seq (m_min 0 is_space) (m_lit_ci ''</p>''))"

definition re_blank_p :: matcher where
  "re_blank_p = m_seq (m_lit_ci ''<p>'') (m_seq (m_min 1 is_space) (m_lit_ci ''</p>''))"

definition re_blank_lines :: matcher where
  "re_blank_lines s =
     (case s of
        [] \<Rightarrow> None
      | c # cs \<Rightarrow>
          (let run = takeWhile is_space cs in
           if c = CHR 0x0A \<and> 2 \<le> length (filter (\<lambda>d. d = CHR 0x0A) run)
           then Some (1 + length (dropWhile (\<lambda>d. d \<noteq> CHR 0x0A) (rev run)))
           else None))"

definition re_newlines3 :: matcher where
  "re_newlines3 = m_min 3 (\<lambda>c. c = CHR 0x0A)"

text \<open>
  Step 5. \<^verbatim>\<open>/<ul[^>]*?>\s*<\/ul>/gi\<close> and \<^verbatim>\<open>/<ul[^>]*?>\s*\n\s*<\/ul>/gi\<close>, and the
  two for \<^verbatim>\<open>ol\<close>. Step 6. \<^verbatim>\<open>/<li>\s*<\/li>/gi\<close>.
\<close>

definition re_empty_list :: "string \<Rightarrow> matcher" where
  "re_empty_list tag =
     m_seq (m_lit_ci (''<'' @ tag))
       (m_seq (m_lazy (\<lambda>c. c \<noteq> CHR ''>'') (m_lit ''>''))
         (m_seq (m_min 0 is_space) (m_lit_ci (''</'' @ tag @ ''>''))))"

definition m_space_with_newline :: matcher where
  "m_space_with_newline s =
     (let run = takeWhile is_space s in if CHR 0x0A \<in> set run then Some (length run) else None)"

definition re_empty_list_newline :: "string \<Rightarrow> matcher" where
  "re_empty_list_newline tag =
     m_seq (m_lit_ci (''<'' @ tag))
       (m_seq (m_lazy (\<lambda>c. c \<noteq> CHR ''>'') (m_lit ''>''))
         (m_seq m_space_with_newline (m_lit_ci (''</'' @ tag @ ''>''))))"

definition re_empty_li :: matcher where
  "re_empty_li = m_seq (m_lit_ci ''<li>'') (m_seq (m_min 0 is_space) (m_lit_ci ''</li>''))"

text \<open>
  Step 7. \<^verbatim>\<open>/\s{2,}/g\<close>. Step 8. \<^verbatim>\<open>/(<br\s*\/?>){2,}/gi\<close> and
  \<^verbatim>\<open>/(&nbsp;){2,}/gi\<close>.
\<close>

definition re_spaces2 :: matcher where
  "re_spaces2 = m_min 2 is_space"

definition re_br :: matcher where
  "re_br = m_seq (m_lit_ci ''<br'') (m_seq (m_min 0 is_space) (m_seq (m_opt (m_lit ''/'')) (m_lit ''>'')))"

definition re_br2 :: matcher where
  "re_br2 = m_min_times 2 re_br"

definition re_nbsp2 :: matcher where
  "re_nbsp2 = m_min_times 2 (m_lit_ci ''&nbsp;'')"

text \<open>The nine steps of \<^verbatim>\<open>cleanupHTML\<close>, in their order.\<close>

definition cleanup_structure :: "string \<Rightarrow> string" where
  "cleanup_structure html =
     (let h1 = remove_duplicate_blocks ''blog_index_cover'' html;
          h2 = remove_duplicate_headings [] h1;
          h3 = remove_duplicate_blocks ''faq_blog'' h2;
          h4a = replace_re re_empty_p '''' h3;
          h4b = replace_re re_blank_p '''' h4a
      in h4b)"

definition cleanup_newlines :: "string \<Rightarrow> string" where
  "cleanup_newlines h =
     replace_re re_newlines3 [CHR 0x0A, CHR 0x0A] (replace_re re_blank_lines [CHR 0x0A, CHR 0x0A] h)"

definition cleanup_lists :: "string \<Rightarrow> string" where
  "cleanup_lists h =
     (let h5a = replace_re (re_empty_list ''ul'') '''' h;
          h5b = replace_re (re_empty_list ''ol'') '''' h5a;
          h5c = replace_re (re_empty_list_newline ''ul'') '''' h5b;
          h5d = replace_re (re_empty_list_newline ''ol'') '''' h5c;
          h6 = replace_re re_empty_li '''' h5d
      in h6)"

definition cleanup_spaces :: "string \<Rightarrow> string" where
  "cleanup_spaces h =
     (let h7 = replace_re re_spaces2 '' '' h;
          h8a = replace_re re_br2 ''<br>'' h7;
          h8b = replace_re re_nbsp2 ''&nbsp;'' h8a
      in trim h8b)"

definition cleanupHTML :: "string \<Rightarrow> string" where
  "cleanupHTML html = cleanup_spaces (cleanup_lists (cleanup_newlines (cleanup_structure html)))"

section \<open>DocumentParser: convertTextToHTML\<close>

text \<open>
  The variables of the loop: the output so far, the open list, the active section and
  its buffer, and the outline of the headings. \<^verbatim>\<open>currentListType\<close> and
  \<^verbatim>\<open>currentSection\<close> are \<^verbatim>\<open>null\<close> or a string.
\<close>

record scan_state =
  html :: string
  inList :: bool
  currentListType :: "string option"
  currentSection :: "string option"
  sectionItems :: "string list"
  tocItems :: "item list"

definition initial_state :: scan_state where
  "initial_state =
     \<lparr>html = [], inList = False, currentListType = None, currentSection = None,
      sectionItems = [], tocItems = []\<rparr>"

text \<open>A section is active when \<^verbatim>\<open>currentSection\<close> is truthy: a string, and not the empty one.\<close>

definition active :: "scan_state \<Rightarrow> bool" where
  "active st = (case currentSection st of None \<Rightarrow> False | Some t \<Rightarrow> t \<noteq> [])"

text \<open>What \<^verbatim>\<open>html += v\<close> appends for a value \<open>v\<close>.\<close>

fun js_to_string :: "js_value \<Rightarrow> string" where
  "js_to_string (JString s) = s"
| "js_to_string (JStringObject s) = s"
| "js_to_string (JBoolean b) = (if b then ''true'' else ''false'')"

definition emit :: "string \<Rightarrow> scan_state \<Rightarrow> scan_state" where
  "emit s st = st\<lparr>html := html st @ s\<rparr>"

text \<open>
  What \<^verbatim>\<open>html += this.sectionDetector.processSectionContent(currentSection, '', sectionItems)\<close>
  appends.
\<close>

definition section_html :: "string \<Rightarrow> string list \<Rightarrow> js_error + string" where
  "section_html sectionType items =
     (case processSectionContent sectionType '''' (map Str items) of
        Inl e \<Rightarrow> Inl e
      | Inr v \<Rightarrow> Inr (js_to_string v))"

text \<open>
  The three places that close the active section. An end tag renders the buffer
  unless the section is \<^verbatim>\<open>ignore\<close>; a heading or start tag, and the end of the
  input, put the placeholder for a \<^verbatim>\<open>toc\<close> section instead. \<open>closing_html\<close> is the
  text that is appended, \<open>with_placeholder\<close> tells the latter two from the first.
\<close>

definition closing_html :: "bool \<Rightarrow> scan_state \<Rightarrow> js_error + string" where
  "closing_html with_placeholder st =
     (case currentSection st of
        None \<Rightarrow> Inr []
      | Some sectionType \<Rightarrow>
          if sectionType \<noteq> [] \<and> sectionItems st \<noteq> [] then
            (if with_placeholder \<and> sectionType = ''toc'' then Inr ''<!-- TOC_PLACEHOLDER -->''
             else if sectionType \<noteq> ''ignore'' then section_html sectionType (sectionItems st)
             else Inr [])
          else Inr [])"

definition flush_section :: "bool \<Rightarrow> scan_state \<Rightarrow> js_error + scan_state" where
  "flush_section with_placeholder st =
     (case closing_html with_placeholder st of
        Inl e \<Rightarrow> Inl e
      | Inr out \<Rightarrow>
          Inr (if active st \<and> sectionItems st \<noteq> [] then (emit out st)\<lparr>sectionItems := []\<rparr> else st))"

definition close_open_list :: "scan_state \<Rightarrow> scan_state" where
  "close_open_list st =
     (if inList st
      then (emit (closeList (currentListType st)) st)\<lparr>inList := False, currentListType := None\<rparr>
      else st)"

definition heading_html :: "nat \<Rightarrow> string \<Rightarrow> string \<Rightarrow> string" where
  \<open>heading_html level ident text =
     ''<h'' @ string_of_nat level @ '' id="'' @ ident @ ''">'' @ text @
     ''</h'' @ string_of_nat level @ ''>'' @ nl\<close>

definition add_heading :: "nat \<Rightarrow> string \<Rightarrow> string \<Rightarrow> scan_state \<Rightarrow> scan_state" where
  "add_heading level ident text st =
     (emit (heading_html level ident text) st)\<lparr>tocItems := tocItems st @ [Obj text ident level]\<rparr>"

definition buffer :: "string \<Rightarrow> scan_state \<Rightarrow> scan_state" where
  "buffer s st = st\<lparr>sectionItems := sectionItems st @ [s]\<rparr>"

text \<open>
  The body of the \<^verbatim>\<open>if\<close> for headings and tags, after the list is closed: a start
  tag with a section type opens that section; a heading that is a trigger opens its
  section and is shown unless the section is \<^verbatim>\<open>toc\<close> or \<^verbatim>\<open>faq\<close>; any other heading is
  shown, buffered or dropped according to the active section.
\<close>

definition heading_or_tag :: "string \<Rightarrow> string \<Rightarrow> scan_state \<Rightarrow> scan_state" where
  "heading_or_tag line normalizedLine st =
     (case (if isStartTag normalizedLine then getSectionTypeFromTag normalizedLine else None) of
        Some sectionType \<Rightarrow> st\<lparr>currentSection := Some sectionType\<rparr>
      | None \<Rightarrow>
          if isHeading line then
            (let level = getHeadingLevel line;
                 text = cleanHeadingText line;
                 ident = DocumentParser_generateId text
             in case (if isStartTag normalizedLine then None else detectSectionType text) of
                  Some sectionType \<Rightarrow>
                    (let st' = st\<lparr>currentSection := Some sectionType\<rparr> in
                     if sectionType \<noteq> ''toc'' \<and> sectionType \<noteq> ''faq''
                     then add_heading level ident text st' else st')
                | None \<Rightarrow>
                    if \<not> active st then add_heading level ident text st
                    else if currentSection st \<noteq> Some ''ignore'' \<and> currentSection st \<noteq> Some ''faq'' \<and>
                            currentSection st \<noteq> Some ''toc''
                    then add_heading level ident text st
                    else if currentSection st = Some ''faq'' then buffer text st
                    else if currentSection st = Some ''toc'' then buffer text st
                    else st)
          else st)"

text \<open>
  A \<^verbatim>\<open><TABLE>\<close> line: the lines up to the first that contains \<^verbatim>\<open><TABLE END>\<close> are
  the block; those that, trimmed, are not empty and neither start with \<^verbatim>\<open><\<close> nor end
  with \<^verbatim>\<open>>\<close> are its content.
\<close>

definition table_block :: "string list \<Rightarrow> string list" where
  "table_block rest = takeWhile (\<lambda>l. \<not> includes_str l ''<TABLE END>'') rest"

definition table_block_content :: "string list \<Rightarrow> string list" where
  "table_block_content rest =
     filter (\<lambda>tableLine. tableLine \<noteq> [] \<and> \<not> startsWith tableLine ''<'' \<and> \<not> endsWith tableLine ''>'')
       (map trim (table_block rest))"

text \<open>
  One iteration of the loop, at the line \<open>raw\<close> with the lines \<open>rest\<close> after it. The
  result is the new state and the number of further lines that the iteration consumes
  (the loop variable is moved past a table).
\<close>

definition step :: "scan_state \<Rightarrow> string \<Rightarrow> string list \<Rightarrow> js_error + scan_state \<times> nat" where
  \<open>step st raw rest =
     (let line = trim raw in
      if line = [] then Inr (close_open_list st, 0)
      else if includes_str line ''<TABLE>'' then
        (let tableContent = table_block_content rest;
             skip = length (table_block rest) + 1
         in if tableContent \<noteq> [] then
              (case processTableItems (map Str tableContent) of
                 Inl e \<Rightarrow> Inl e
               | Inr tableHtml \<Rightarrow> Inr (emit (tableHtml @ nl) (close_open_list st), skip))
            else Inr (st, skip))
      else if includes_str line ''<TABLE END>'' \<or> includes_str line ''TABLE END'' then Inr (st, 0)
      else if isHeading line \<or> isStartTag (toUpperCase line) \<or> isEndTag (toUpperCase line) then
        (let normalizedLine = trim (toUpperCase line) in
         if isEndTag normalizedLine then
           (case flush_section False st of
              Inl e \<Rightarrow> Inl e
            | Inr st' \<Rightarrow> Inr (st'\<lparr>currentSection := None\<rparr>, 0))
         else
           (case flush_section True st of
              Inl e \<Rightarrow> Inl e
            | Inr st' \<Rightarrow> Inr (heading_or_tag line normalizedLine (close_open_list st'), 0)))
      else if isTableRow line then
        (if active st then Inr (buffer line st, 0)
         else
           (let st' = close_open_list st; tableRows = collectTableRows [] (raw # rest) in
            if length tableRows > 1 then
              (case processTableItems (map Str tableRows) of
                 Inl e \<Rightarrow> Inl e
               | Inr tableHtml \<Rightarrow> Inr (emit tableHtml st', length tableRows - 1))
            else Inr (emit (''<p>'' @ line @ ''</p>'' @ nl) st', 0)))
      else if isListItem line then
        (let itemText = cleanListItem line in
         if active st then Inr (buffer itemText st, 0)
         else
           (let listType = getListType line;
                st' = (if \<not> inList st \<or> currentListType st \<noteq> Some listType
                       then (emit (openList listType)
                               (if inList st then emit (closeList (currentListType st)) st else st))
                            \<lparr>inList := True, currentListType := Some listType\<rparr>
                       else st)
            in Inr (emit (''  <li>'' @ itemText @ ''</li>'' @ nl) st', 0)))
      else
        (if active st then Inr (buffer line st, 0)
         else Inr (emit (''<p>'' @ formatRichText line @ ''</p>'' @ nl) (close_open_list st), 0)))\<close>

text \<open>The loop over the lines.\<close>

fun scan :: "scan_state \<Rightarrow> string list \<Rightarrow> js_error + scan_state" where
  "scan st [] = Inr st"
| "scan st (raw # rest) =
     (case step st raw rest of
        Inl e \<Rightarrow> Inl e
      | Inr (st', skip) \<Rightarrow> scan st' (drop skip rest))"

text \<open>After the loop: the last section is closed, then the open list.\<close>

definition finish_scan :: "scan_state \<Rightarrow> js_error + scan_state" where
  "finish_scan st =
     (case closing_html True st of
        Inl e \<Rightarrow> Inl e
      | Inr out \<Rightarrow>
          Inr (let st' = emit out st in
               if inList st' then emit (closeList (currentListType st')) st' else st'))"

section \<open>The branch that a line takes\<close>

text \<open>
  The conditions of the loop body, apart from its actions: which branch of the
  \<^verbatim>\<open>if\<close> chain the loop takes at a line. An \<open>Opens\<close> line is a start tag that has a
  section type, or a heading that \<^verbatim>\<open>detectSectionType\<close> recognises; a \<open>Heading\<close> line is
  any other line of the heading branch that is not an end tag.
\<close>

datatype line_role =
  Blank | TableBlock | Skipped | EndTag | Opens string | Heading | TableRow | ListItem | Prose

definition line_role :: "string \<Rightarrow> line_role" where
  "line_role raw =
     (let line = trim raw; normalizedLine = trim (toUpperCase line) in
      if line = [] then Blank
      else if includes_str line ''<TABLE>'' then TableBlock
      else if includes_str line ''<TABLE END>'' \<or> includes_str line ''TABLE END'' then Skipped
      else if isHeading line \<or> isStartTag (toUpperCase line) \<or> isEndTag (toUpperCase line) then
        (if isEndTag normalizedLine then EndTag
         else (case (if isStartTag normalizedLine then getSectionTypeFromTag normalizedLine
                     else if isHeading line then detectSectionType (cleanHeadingText line)
                     else None) of
                 Some sectionType \<Rightarrow> Opens sectionType
               | None \<Rightarrow> Heading))
      else if isTableRow line then TableRow
      else if isListItem line then ListItem
      else Prose)"

text \<open>
  A section marker is a line at which the loop opens or closes a section, or reads a
  table block: the lines that end an ignored region.
\<close>

definition section_marker :: "string \<Rightarrow> bool" where
  "section_marker raw =
     (case line_role raw of
        TableBlock \<Rightarrow> True | EndTag \<Rightarrow> True | Opens sectionType \<Rightarrow> True | _ \<Rightarrow> False)"



definition reaches_content_branch :: "string \<Rightarrow> bool" where
  "reaches_content_branch line =
     (line \<noteq> [] \<and> \<not> includes_str line ''<TABLE>'' \<and>
      \<not> (includes_str line ''<TABLE END>'' \<or> includes_str line ''TABLE END'') \<and>
      \<not> (isHeading line \<or> isStartTag (toUpperCase line) \<or> isEndTag (toUpperCase line)))"


section \<open>DocumentParser: the table of contents\<close>

text \<open>
  \<^verbatim>\<open>enhanceTOCWithH2Links\<close>. \<^verbatim>\<open>/<h([2-4])([^>]*?)>(.*?)<\/h[2-4]>/gi\<close>: the length
  of the match, the level digit, the attributes and the text.
\<close>

definition is_toc_level :: "char \<Rightarrow> bool" where
  "is_toc_level c = (c \<in> set ''234'')"

definition re_toc_heading :: "string \<Rightarrow> (nat \<times> char \<times> string \<times> string) option" where
  "re_toc_heading s =
     (if startsWith_ci s ''<h'' \<and> matches (m_class is_toc_level) (drop 2 s)
      then (case lazy_until (\<lambda>c. c \<noteq> CHR ''>'') (m_lit ''>'') (drop 3 s) of
              None \<Rightarrow> None
            | Some (a, b) \<Rightarrow>
                (case lazy_until dot
                        (m_seq (m_lit_ci ''</h'') (m_seq (m_class is_toc_level) (m_lit ''>'')))
                        (drop (3 + a + b) s) of
                   None \<Rightarrow> None
                 | Some (k, n) \<Rightarrow>
                     Some (3 + a + b + k + n, s ! 2, take a (drop 3 s), take k (drop (3 + a + b) s))))
      else None)"

text \<open>\<^verbatim>\<open>/<[^>]*>/g\<close>, and \<^verbatim>\<open>/id\s*=\s*["']([^"']+)["']/i\<close> with its group.\<close>

definition re_tag :: matcher where
  "re_tag = m_seq (m_lit ''<'') (m_lazy (\<lambda>c. c \<noteq> CHR ''>'') (m_lit ''>''))"

definition is_quote :: "char \<Rightarrow> bool" where
  "is_quote c = (c = CHR 0x22 \<or> c = CHR 0x27)"

definition re_id_attribute :: "string \<Rightarrow> string option" where
  "re_id_attribute s =
     (if startsWith_ci s ''id'' then
        (let r1 = dropWhile is_space (drop 2 s) in
         if startsWith r1 ''='' then
           (let r2 = dropWhile is_space (tl r1) in
            if matches (m_class is_quote) r2 then
              (let v = takeWhile (\<lambda>c. \<not> is_quote c) (tl r2); r3 = drop (length v) (tl r2) in
               if v \<noteq> [] \<and> matches (m_class is_quote) r3 then Some v else None)
            else None)
         else None)
      else None)"

text \<open>\<^verbatim>\<open>s.match(re)\<close> without the \<^verbatim>\<open>g\<close> flag: the first position with a match.\<close>

fun first_match :: "(string \<Rightarrow> 'a option) \<Rightarrow> string \<Rightarrow> 'a option" where
  "first_match m [] = m []"
| "first_match m (c # cs) = (case m (c # cs) of Some x \<Rightarrow> Some x | None \<Rightarrow> first_match m cs)"

text \<open>
  The \<^verbatim>\<open>while\<close> loop over the headings of \<open>html\<close>: \<open>modifiedHtml\<close> gets an id for
  each heading without one, \<open>allHeadings\<close> collects level, id and clean text.
\<close>

function collect_headings :: "string \<times> (char \<times> string \<times> string) list \<Rightarrow> string \<Rightarrow> string \<times> (char \<times> string \<times> string) list" where
  "collect_headings acc [] = acc"
| \<open>collect_headings acc (c # cs) =
     (case re_toc_heading (c # cs) of
        Some (Suc n, level, attributes, text) \<Rightarrow>
          (let headingText = trim text;
               cleanText = replace_re re_tag '''' headingText;
               originalHeading = take (Suc n) (c # cs)
           in case first_match re_id_attribute attributes of
                Some headingId \<Rightarrow>
                  collect_headings (fst acc, snd acc @ [(level, headingId, cleanText)]) (drop n cs)
              | None \<Rightarrow>
                  (let headingId = DocumentParser_generateId cleanText;
                       newHeading = ''<h'' @ [level] @ '' id="'' @ headingId @ ''"'' @ attributes @
                                    ''>'' @ headingText @ ''</h'' @ [level] @ ''>''
                   in collect_headings
                        (replace_str (fst acc) originalHeading newHeading,
                         snd acc @ [(level, headingId, cleanText)])
                        (drop n cs)))
      | _ \<Rightarrow> collect_headings acc cs)\<close>
  by pat_completeness auto
termination
  by (relation "measure (\<lambda>(acc, s). length s)") auto

text \<open>
  \<^verbatim>\<open>/<div class="blog_index_cover"[\s\S]*?<ol class="blog_index"[^>]*?>([\s\S]*?)<\/ol>[\s\S]*?<\/div>/i\<close>
\<close>

definition re_toc_block :: matcher where
  \<open>re_toc_block =
     m_seq (m_lit_ci ''<div class="blog_index_cover"'')
       (m_lazy (\<lambda>c. True)
         (m_seq (m_lit_ci ''<ol class="blog_index"'')
           (m_lazy (\<lambda>c. c \<noteq> CHR ''>'')
             (m_seq (m_lit ''>'')
               (m_lazy (\<lambda>c. True)
                 (m_seq (m_lit_ci ''</ol>'') (m_lazy (\<lambda>c. True) (m_lit_ci ''</div>''))))))))\<close>

fun first_match_text :: "matcher \<Rightarrow> string \<Rightarrow> string option" where
  "first_match_text m [] = (case m [] of Some n \<Rightarrow> Some [] | None \<Rightarrow> None)"
| "first_match_text m (c # cs) =
     (case m (c # cs) of Some n \<Rightarrow> Some (take n (c # cs)) | None \<Rightarrow> first_match_text m cs)"

definition toc_link :: "char \<times> string \<times> string \<Rightarrow> string" where
  \<open>toc_link heading =
     (case heading of (level, ident, text) \<Rightarrow>
        (let indent = (if level = CHR ''2'' then ''    '' else if level = CHR ''3'' then ''        ''
                       else ''            '');
             linkClass = (if level = CHR ''2'' then '''' else '' class="sub-heading"'')
         in indent @ ''<li><a href="#'' @ ident @ ''"'' @ linkClass @ ''>'' @ text @ ''</a></li>'' @ nl))\<close>

definition newTocSection :: "(char \<times> string \<times> string) list \<Rightarrow> string" where
  \<open>newTocSection allHeadings =
     ''<div class="blog_index_cover">'' @ nl @
     ''    <p class="blog_index_toggle_btn fonts-16 w-700">Table Of Contents</p>'' @ nl @
     ''    <ol class="blog_index">'' @ nl @
     concat (map toc_link allHeadings) @ ''    </ol>'' @ nl @
     ''</div>''\<close>

definition enhanceTOCWithH2Links :: "string \<Rightarrow> string" where
  "enhanceTOCWithH2Links h =
     (case collect_headings (h, []) h of (modifiedHtml, allHeadings) \<Rightarrow>
        if allHeadings = [] then modifiedHtml
        else (case first_match_text re_toc_block modifiedHtml of
                Some tocMatch \<Rightarrow> replace_str modifiedHtml tocMatch (newTocSection allHeadings)
              | None \<Rightarrow> modifiedHtml))"

text \<open>
  \<^verbatim>\<open>convertTextToHTML\<close>: the loop over the lines of \<open>content\<close>, the placeholder
  replaced by the table of contents of the outline, the table of contents rebuilt from
  the headings of the output, and the cleanup. (The call of
  \<^verbatim>\<open>analyzeTextStructure\<close> at its start computes a value that is not used.)
\<close>

definition place_toc :: "scan_state \<Rightarrow> js_error + string" where
  "place_toc st =
     (if includes_str (html st) ''<!-- TOC_PLACEHOLDER -->'' \<and> tocItems st \<noteq> [] then
        (case processSectionContent ''toc'' '''' (tocItems st) of
           Inl e \<Rightarrow> Inl e
         | Inr tocHtml \<Rightarrow>
             Inr (replace_str (html st) ''<!-- TOC_PLACEHOLDER -->'' (js_to_string tocHtml)))
      else Inr (html st))"

definition finish_html :: "scan_state \<Rightarrow> js_error + string" where
  "finish_html st =
     (case finish_scan st of
        Inl e \<Rightarrow> Inl e
      | Inr st' \<Rightarrow>
          (case place_toc st' of
             Inl e \<Rightarrow> Inl e
           | Inr h \<Rightarrow>
               Inr (cleanupHTML
                     (if includes_str h ''blog_index_cover'' then enhanceTOCWithH2Links h else h))))"

definition convert_lines :: "string list \<Rightarrow> js_error + string" where
  "convert_lines lines =
     (case scan initial_state lines of Inl e \<Rightarrow> Inl e | Inr st \<Rightarrow> finish_html st)"

definition convertTextToHTML :: "string \<Rightarrow> js_error + string" where
  "convertTextToHTML content = convert_lines (split_on CHR 0x0A content)"

text \<open>The conversion continued from a state of the loop, with the lines still to read.\<close>

definition finish_from :: "scan_state \<Rightarrow> string list \<Rightarrow> js_error + string" where
  "finish_from st lines = (case scan st lines of Inl e \<Rightarrow> Inl e | Inr st' \<Rightarrow> finish_html st')"

section \<open>The serverless rule-based fallback\<close>

text \<open>
  The helper functions of the serverless function \<^verbatim>\<open>parse-with-ai\<close>, which
  \<^verbatim>\<open>parseContentWithRules\<close> calls when the AI service fails, and the text that the
  loop of \<^verbatim>\<open>parseContentWithRules\<close> appends for a line that \<^verbatim>\<open>isHeading\<close> accepts:
  \<^verbatim>\<open><h${level} id="${id}">${text}</h${level}>\n\<close>.
\<close>

definition api_isHeading :: "string \<Rightarrow> bool" where
  "api_isHeading line =
     (length line > 5 \<and> line = toUpperCase line \<and>
        (line \<noteq> [] \<and> list_all (\<lambda>c. is_upper c \<or> is_space c) line) \<or>
      matches re_numbered_title line \<or>
      endsWith line ''?'' \<and> length line > 10)"

definition api_getHeadingLevel :: "string \<Rightarrow> nat" where
  "api_getHeadingLevel line =
     (if matches re_numbered line then 2
      else if endsWith line ''?'' then 3
      else 1)"

definition api_cleanHeadingText :: "string \<Rightarrow> string" where
  "api_cleanHeadingText line = trim (replace_anchored re_numbered '''' line)"

definition api_generateId :: "string \<Rightarrow> string" where
  "api_generateId text =
     take 50 (replace_ws_runs ''-''
       (filter (\<lambda>c. is_lower c \<or> is_digit c \<or> is_space c \<or> c = CHR ''-'') (toLowerCase text)))"

definition api_heading_html :: "string \<Rightarrow> string" where
  \<open>api_heading_html line =
     (let level = api_getHeadingLevel line;
          text = api_cleanHeadingText line;
          ident = api_generateId text
      in ''<h'' @ string_of_nat level @ '' id="'' @ ident @ ''">'' @ text @
         ''</h'' @ string_of_nat level @ ''>'' @ nl)\<close>

section \<open>Predicates of the cleanup properties\<close>



definition collapse_nbsp :: "string \<Rightarrow> string" where
  "collapse_nbsp x = replace_re re_nbsp2 ''&nbsp;'' x"



section \<open>Properties of the string operations\<close>



lemma split_on_no_sep: "sep \<notin> set s \<Longrightarrow> split_on sep s = [s]"
  by (induction s) auto

section \<open>Properties of id generation\<close>

lemma replace_ws_runs_chars:
  "set (replace_ws_runs r s) \<subseteq> set r \<union> {c \<in> set s. \<not> is_space c}"
proof (induction r s rule: replace_ws_runs.induct)
  case (1 r)
  show ?case by simp
next
  case (2 r c cs)
  show ?case
  proof (cases "is_space c")
    case True
    have "set (dropWhile is_space cs) \<subseteq> set cs" by (rule set_dropWhileD [THEN subsetI])
    with 2(1) [OF True] True show ?thesis by auto
  next
    case False
    with 2(2) [OF False] show ?thesis by auto
  qed
qed

lemma generateId_alphabet:
  "set (DocumentParser_generateId text) \<subseteq> set lower_letters \<union> set digits \<union> {CHR ''-''}"
proof -
  let ?kept = "filter (\<lambda>c. is_lower c \<or> is_digit c \<or> is_space c \<or> c = CHR ''-'') (toLowerCase text)"
  have "set (DocumentParser_generateId text) \<subseteq> set (replace_ws_runs ''-'' ?kept)"
    unfolding DocumentParser_generateId_def by (rule set_take_subset)
  also have "\<dots> \<subseteq> set ''-'' \<union> {c \<in> set ?kept. \<not> is_space c}"
    by (rule replace_ws_runs_chars)
  also have "\<dots> \<subseteq> set lower_letters \<union> set digits \<union> {CHR ''-''}"
    by (auto simp: is_lower_def is_digit_def)
  finally show ?thesis .
qed

lemma generateId_length: "length (DocumentParser_generateId text) \<le> 50"
  by (simp add: DocumentParser_generateId_def)

text \<open>
  Claim C10. The id generators of DocumentParser, SectionDetector and TemplateSystem
  compute the same function: on every input string the three return the same slug.
\<close>

theorem generateId_copies_agree:
  "DocumentParser_generateId text = SectionDetector_generateId text \<and>
   SectionDetector_generateId text = TemplateSystem_generateId text"
  by (simp add: DocumentParser_generateId_def SectionDetector_generateId_def
      TemplateSystem_generateId_def)

text \<open>
  Claim C4. The slug is a function of the text, over the alphabet a-z, 0-9 and hyphen,
  at most 50 characters long (\<open>generateId_alphabet\<close>, \<open>generateId_length\<close>), but a
  hyphen at either end is not removed: the question heading \<^verbatim>\<open>What's New ?\<close> gets
  an id that ends in a hyphen, from DocumentParser and from SectionDetector alike.
\<close>

theorem generateId_keeps_trailing_hyphen:
  "DocumentParser_generateId ''What's New ?'' = ''whats-new-'' \<and>
   SectionDetector_generateId ''What's New ?'' = ''whats-new-'' \<and>
   DocumentParser_generateId '' a'' = ''-a''"
  by code_simp

section \<open>Properties of the section detector\<close>

subsection \<open>Trigger detection\<close>

lemma detect_loop_None:
  "list_all (\<lambda>(keyword, sectionType).
      normalizedText \<noteq> keyword \<and> normalizedText \<noteq> keyword @ '':'' \<and>
      normalizedText \<noteq> keyword @ ''.'' \<and>
      \<not> (length normalizedText \<le> length keyword + 5 \<and> includes_str normalizedText keyword))
    entries
   \<Longrightarrow> detect_loop entries normalizedText = None"
  by (induction entries) auto

text \<open>
  Claim C7. Let the normalized text of a line (upper-cased, trimmed) be no start tag,
  differ from every trigger phrase and from every trigger phrase followed by a colon or
  a full stop, and be more than 5 characters longer than every trigger phrase. Then
  \<^verbatim>\<open>detectSectionType\<close> answers null. An instance is a sentence that contains FAQ.
\<close>

theorem detectSectionType_long_prose:
  assumes n: "normalizedText = trim (toUpperCase headingText)"
    and tag: "\<not> isStartTag normalizedText"
    and neq: "\<forall>keyword \<in> set (map fst sectionMappings).
        normalizedText \<noteq> keyword \<and> normalizedText \<noteq> keyword @ '':'' \<and>
        normalizedText \<noteq> keyword @ ''.''"
    and len: "\<forall>keyword \<in> set (map fst sectionMappings). length keyword + 5 < length normalizedText"
  shows "detectSectionType headingText = None"
proof -
  have "normalizedText \<notin> fst ` set sectionMappings"
    using neq by auto
  then have exact: "map_of sectionMappings normalizedText = None"
    by (simp add: map_of_eq_None_iff)
  have "list_all (\<lambda>(keyword, sectionType).
      normalizedText \<noteq> keyword \<and> normalizedText \<noteq> keyword @ '':'' \<and>
      normalizedText \<noteq> keyword @ ''.'' \<and>
      \<not> (length normalizedText \<le> length keyword + 5 \<and> includes_str normalizedText keyword))
    sectionMappings"
    unfolding list_all_iff using neq len by fastforce
  then have "detect_loop sectionMappings normalizedText = None"
    by (rule detect_loop_None)
  with exact tag n show ?thesis
    by (simp add: detectSectionType_def)
qed

theorem detectSectionType_long_prose_witness:
  "detectSectionType ''Please read our FAQ page before contacting the support team'' = None \<and>
   includes_str (trim (toUpperCase ''Please read our FAQ page before contacting the support team''))
     ''FAQ''"
proof -
  let ?t = "''Please read our FAQ page before contacting the support team''"
  let ?n = "''PLEASE READ OUR FAQ PAGE BEFORE CONTACTING THE SUPPORT TEAM''"
  have n: "?n = trim (toUpperCase ?t)" by code_simp
  have tag: "\<not> isStartTag ?n" by code_simp
  have neq: "\<forall>keyword \<in> set (map fst sectionMappings).
        ?n \<noteq> keyword \<and> ?n \<noteq> keyword @ '':'' \<and> ?n \<noteq> keyword @ ''.''"
    by (simp add: sectionMappings_def)
  have len: "\<forall>keyword \<in> set (map fst sectionMappings). length keyword + 5 < length ?n"
    by (simp add: sectionMappings_def)
  have inc: "includes_str (trim (toUpperCase ?t)) ''FAQ''" by code_simp
  from detectSectionType_long_prose [OF n tag neq len] inc show ?thesis by simp
qed

subsection \<open>Unknown section types\<close>

lemma processSectionContent_unknown:
  assumes "sectionType \<notin> set (map fst sectionTemplates)"
    and "sectionType \<notin> set object_prototype_names"
  shows "processSectionContent sectionType content items =
         Inr (JString (''<p>'' @ content @ ''</p>''))"
proof -
  from assms(1) have "map_of sectionTemplates sectionType = None"
    by (simp add: map_of_eq_None_iff)
  with assms(2) show ?thesis
    by (simp add: processSectionContent_def processRegularContent_def)
qed

text \<open>
  Claim C9. A section type that is neither a template nor a property inherited by the
  template object gets the paragraph around \<^verbatim>\<open>content\<close>
  (\<open>processSectionContent_unknown\<close>). A section type that is no template but names an
  inherited property does not: \<^verbatim>\<open>__proto__\<close> and \<^verbatim>\<open>hasOwnProperty\<close> raise a
  TypeError, \<^verbatim>\<open>toString\<close> returns \<^verbatim>\<open>[object Undefined]\<close>.
\<close>

theorem processSectionContent_inherited_name:
  "processSectionContent ''__proto__'' content items = Inl TypeError \<and>
   processSectionContent ''hasOwnProperty'' content items = Inl TypeError \<and>
   processSectionContent ''toString'' content items = Inr (JString ''[object Undefined]'')"
  by (simp add: processSectionContent_def sectionTemplates_def object_prototype_names_def
      call_inherited_def)

subsection \<open>The steps template\<close>

lemma steps_one_item_per_line:
  "length (map2 steps_item items [0..<length items]) = length items"
  by simp

lemma steps_item_without_colon:
  assumes "CHR '':'' \<notin> set item" and "item \<noteq> []"
  shows \<open>steps_item item index =
     join nl [''    <li>'', ''        <h3>'' @ item @ ''</h3>'', ''        <p>'' @ item @ ''</p>'',
       ''    </li>'']\<close>
  using assms by (simp add: steps_item_def split_on_no_sep trim_def)

text \<open>
  Claim C5. The steps template renders one list item per buffered line
  (\<open>steps_one_item_per_line\<close>), with the text before the first colon as title and the
  trimmed text after it as description. A line without a colon is rendered with the
  whole line as description and, again, the whole line as title: the numbered title
  \<^verbatim>\<open>Step n\<close> stands only where the text before the first colon is empty.
\<close>

theorem steps_line_without_colon:
  \<open>processSectionContent ''steps'' '''' [Str ''Install the package''] =
     Inr (JString (join nl
       ['''',
        ''<ol class="listing-bx">'',
        ''    <li>'',
        ''        <h3>Install the package</h3>'',
        ''        <p>Install the package</p>'',
        ''    </li>'',
        ''</ol>'']))\<close>
  by code_simp

subsection \<open>The FAQ renderer\<close>










section \<open>Heading levels\<close>

lemma level_by_words_range: "level_by_words words \<in> {2, 3, 4}"
  by (simp add: level_by_words_def)

lemma getHeadingLevel_range: "getHeadingLevel line \<in> {2, 3, 4}"
  using level_by_words_range [of "words_of (trim line)"]
    level_by_words_range [of "words_of (strip_bold_marks (trim line))"]
  by (auto simp add: getHeadingLevel_def Let_def)

text \<open>
  Claim C1. \<^verbatim>\<open>DocumentParser.getHeadingLevel\<close> assigns the levels 2, 3 and 4 only
  (\<open>getHeadingLevel_range\<close>). The rule-based fallback of the serverless function is
  another matter: its \<^verbatim>\<open>getHeadingLevel\<close> answers 1 for every heading that is neither
  numbered nor a question, and the capitals line \<^verbatim>\<open>INTRODUCTION\<close>, which its
  \<^verbatim>\<open>isHeading\<close> accepts, is written out as an \<^verbatim>\<open>h1\<close> element.
\<close>

theorem api_heading_level_one:
  \<open>api_isHeading ''INTRODUCTION'' \<and>
   api_getHeadingLevel ''INTRODUCTION'' = 1 \<and>
   api_heading_html ''INTRODUCTION'' = ''<h1 id="introduction">INTRODUCTION</h1>'' @ nl\<close>
  by code_simp

section \<open>Properties of the cleanup\<close>




lemma toUpperChar_lt [simp]: "toUpperChar CHR ''<'' = CHR ''<''"
  by (simp add: toUpperChar_def lower_letters_def upper_letters_def)

























lemma is_space_LF [simp]: "is_space (CHR 0x0A)"
  by (simp add: is_space_def)


















lemma collapse_nbsp_Nil [simp]: "collapse_nbsp [] = []"
  by (simp add: collapse_nbsp_def replace_re_def)



lemma toUpperChar_amp [simp]: "toUpperChar CHR ''&'' = CHR ''&''"
  by (simp add: toUpperChar_def lower_letters_def upper_letters_def)



lemma test_re_append_literal:
  "test_re m (a @ b) \<longleftrightarrow> (\<exists>k < length a. m (drop k a @ b) \<noteq> None) \<or> test_re m b"
proof (induction a)
  case Nil
  show ?case by simp
next
  case (Cons c a)
  have "(\<exists>k < length (c # a). m (drop k (c # a) @ b) \<noteq> None) \<longleftrightarrow>
        m (c # a @ b) \<noteq> None \<or> (\<exists>k < length a. m (drop k a @ b) \<noteq> None)"
    by (auto simp: less_Suc_eq_0_disj)
  with Cons show ?case by auto
qed
















subsection \<open>Clean HTML is left as it is\<close>




subsection \<open>Every step shortens what it changes\<close>

















subsection \<open>The removal of duplicates\<close>

lemma includes_str_Cons: "includes_str cs p \<Longrightarrow> includes_str (c # cs) p"
  by simp




lemma startsWith_Nil_iff: "startsWith [] p \<longleftrightarrow> p = []"
  by (cases p) simp_all









subsection \<open>The fixed points of the cleanup\<close>















section \<open>The loop of convertTextToHTML, branch by branch\<close>

text \<open>What the role of a line says about the conditions of the loop body.\<close>

lemma role_Blank: "line_role raw = Blank \<Longrightarrow> trim raw = []"
  by (simp add: line_role_def Let_def split: if_splits option.splits)

lemma role_Skipped:
  "line_role raw = Skipped \<Longrightarrow>
   trim raw \<noteq> [] \<and> \<not> includes_str (trim raw) ''<TABLE>'' \<and>
   (includes_str (trim raw) ''<TABLE END>'' \<or> includes_str (trim raw) ''TABLE END'')"
  by (simp add: line_role_def Let_def split: if_splits option.splits)

lemma role_heading_branch:
  "line_role raw = EndTag \<or> line_role raw = Opens t \<or> line_role raw = Heading \<Longrightarrow>
   trim raw \<noteq> [] \<and> \<not> includes_str (trim raw) ''<TABLE>'' \<and>
   \<not> (includes_str (trim raw) ''<TABLE END>'' \<or> includes_str (trim raw) ''TABLE END'') \<and>
   (isHeading (trim raw) \<or> isStartTag (toUpperCase (trim raw)) \<or> isEndTag (toUpperCase (trim raw)))"
  by (auto simp add: line_role_def Let_def split: if_splits option.splits)

lemma role_EndTag: "line_role raw = EndTag \<Longrightarrow> isEndTag (trim (toUpperCase (trim raw)))"
  by (simp add: line_role_def Let_def split: if_splits option.splits)

lemma role_not_EndTag:
  "line_role raw = Opens t \<or> line_role raw = Heading \<Longrightarrow> \<not> isEndTag (trim (toUpperCase (trim raw)))"
  by (auto simp add: line_role_def Let_def split: if_splits option.splits)

lemma role_other:
  "line_role raw = TableRow \<or> line_role raw = ListItem \<or> line_role raw = Prose \<Longrightarrow>
   trim raw \<noteq> [] \<and> \<not> includes_str (trim raw) ''<TABLE>'' \<and>
   \<not> (includes_str (trim raw) ''<TABLE END>'' \<or> includes_str (trim raw) ''TABLE END'') \<and>
   \<not> (isHeading (trim raw) \<or> isStartTag (toUpperCase (trim raw)) \<or> isEndTag (toUpperCase (trim raw)))"
  by (auto simp add: line_role_def Let_def split: if_splits option.splits)

text \<open>The iteration of the loop at a line of each role.\<close>

lemma step_Blank: "line_role raw = Blank \<Longrightarrow> step st raw rest = Inr (close_open_list st, 0)"
  by (drule role_Blank) (simp add: step_def)

lemma step_Skipped: "line_role raw = Skipped \<Longrightarrow> step st raw rest = Inr (st, 0)"
  by (drule role_Skipped) (simp add: step_def Let_def)

lemma step_EndTag:
  assumes "line_role raw = EndTag"
  shows "step st raw rest =
     (case flush_section False st of
        Inl e \<Rightarrow> Inl e
      | Inr st' \<Rightarrow> Inr (st'\<lparr>currentSection := None\<rparr>, 0))"
  using role_heading_branch [of raw] role_EndTag [OF assms] assms
  by (simp add: step_def Let_def)

lemma step_heading_branch:
  assumes "line_role raw = Opens t \<or> line_role raw = Heading"
  shows "step st raw rest =
     (case flush_section True st of
        Inl e \<Rightarrow> Inl e
      | Inr st' \<Rightarrow>
          Inr (heading_or_tag (trim raw) (trim (toUpperCase (trim raw))) (close_open_list st'), 0))"
  using role_heading_branch [of raw t] role_not_EndTag [OF assms] assms
  by (simp add: step_def Let_def)



lemma role_TableRow: "line_role raw = TableRow \<Longrightarrow> isTableRow (trim raw)"
  by (simp add: line_role_def Let_def split: if_splits option.splits)

lemma role_ListItem: "line_role raw = ListItem \<Longrightarrow> \<not> isTableRow (trim raw) \<and> isListItem (trim raw)"
  by (simp add: line_role_def Let_def split: if_splits option.splits)

lemma role_Prose: "line_role raw = Prose \<Longrightarrow> \<not> isTableRow (trim raw) \<and> \<not> isListItem (trim raw)"
  by (simp add: line_role_def Let_def split: if_splits option.splits)

lemma step_buffered:
  assumes "line_role raw = TableRow \<or> line_role raw = ListItem \<or> line_role raw = Prose"
    and "active st"
  shows "step st raw rest =
     Inr (buffer (if line_role raw = ListItem then cleanListItem (trim raw) else trim raw) st, 0)"
  using role_other [OF assms(1)] assms role_TableRow [of raw] role_ListItem [of raw] role_Prose [of raw]
  by (auto simp add: step_def Let_def)


text \<open>The fields that the parts of an iteration leave alone.\<close>

lemma close_open_list_fields [simp]:
  "currentSection (close_open_list st) = currentSection st"
  "sectionItems (close_open_list st) = sectionItems st"
  "tocItems (close_open_list st) = tocItems st"
  "inList (close_open_list st) = False"
  by (simp_all add: close_open_list_def emit_def)


lemma close_open_list_closed: "\<not> inList st \<Longrightarrow> close_open_list st = st"
  by (simp add: close_open_list_def)

lemma active_simps [simp]:
  "active (st\<lparr>html := h\<rparr>) = active st"
  "active (st\<lparr>sectionItems := i\<rparr>) = active st"
  "active (st\<lparr>tocItems := t\<rparr>) = active st"
  "active (st\<lparr>inList := b\<rparr>) = active st"
  "active (st\<lparr>currentListType := l\<rparr>) = active st"
  "active (close_open_list st) = active st"
  by (simp_all add: active_def close_open_list_def emit_def)



lemma role_Heading:
  "line_role raw = Heading \<Longrightarrow>
     (if isStartTag (trim (toUpperCase (trim raw)))
      then getSectionTypeFromTag (trim (toUpperCase (trim raw)))
      else if isHeading (trim raw) then detectSectionType (cleanHeadingText (trim raw))
      else None) = None"
  by (simp add: line_role_def Let_def split: if_splits option.splits)

lemma add_heading_fields [simp]:
  "currentSection (add_heading l i t st) = currentSection st"
  "sectionItems (add_heading l i t st) = sectionItems st"
  "inList (add_heading l i t st) = inList st"
  "html (add_heading l i t st) = html st @ heading_html l i t"
  by (simp_all add: add_heading_def emit_def)


lemma heading_or_tag_Heading:
  assumes "line_role raw = Heading"
  shows "currentSection (heading_or_tag (trim raw) (trim (toUpperCase (trim raw))) st) = currentSection st"
    "active st \<or> sectionItems (heading_or_tag (trim raw) (trim (toUpperCase (trim raw))) st) = sectionItems st"
    "currentSection st = Some ''ignore'' \<Longrightarrow>
       heading_or_tag (trim raw) (trim (toUpperCase (trim raw))) st = st"
  using role_Heading [OF assms]
  by (auto simp add: heading_or_tag_def Let_def buffer_def active_def split: if_splits option.splits)

subsection \<open>One section at a time\<close>










lemma line_role_content_iff:
  "line_role raw = TableRow \<or> line_role raw = ListItem \<or> line_role raw = Prose \<longleftrightarrow>
     reaches_content_branch (trim raw)"
  by (auto simp add: line_role_def reaches_content_branch_def Let_def
      split: if_splits option.splits)








section \<open>Ignored regions\<close>

text \<open>
  The lines between \<^verbatim>\<open><IGNORE>\<close> and \<^verbatim>\<open><IGNORE END>\<close>, as the loop reads them: the start
  tag closes the active section and the open list and makes \<^verbatim>\<open>ignore\<close> the active section;
  a line that is no section marker is buffered or dropped; the end tag throws the buffer
  away.
\<close>

lemma processSectionContent_ignore: "processSectionContent ''ignore'' content items = Inr (JString [])"
  by (simp add: processSectionContent_def sectionTemplates_def ignore_template_def)

lemma role_ignore_start: "line_role ''<IGNORE>'' = Opens ''ignore''"
  by code_simp

lemma role_ignore_end: "line_role ''<IGNORE END>'' = EndTag"
  by code_simp

lemma heading_or_tag_ignore:
  "heading_or_tag (trim ''<IGNORE>'') (trim (toUpperCase (trim ''<IGNORE>''))) st =
     st\<lparr>currentSection := Some ''ignore''\<rparr>"
proof -
  have 1: "trim (toUpperCase (trim ''<IGNORE>'')) = ''<IGNORE>''" by code_simp
  have 2: "isStartTag ''<IGNORE>''" by code_simp
  have 3: "getSectionTypeFromTag ''<IGNORE>'' = Some ''ignore''" by code_simp
  show ?thesis by (simp add: 1 2 3 heading_or_tag_def)
qed

lemma step_ignore_start:
  "step st ''<IGNORE>'' rest =
     (case flush_section True st of
        Inl e \<Rightarrow> Inl e
      | Inr st' \<Rightarrow> Inr ((close_open_list st')\<lparr>currentSection := Some ''ignore''\<rparr>, 0))"
  using role_ignore_start by (simp add: step_heading_branch heading_or_tag_ignore split: sum.splits)

lemma flush_ignore:
  assumes "currentSection st = Some ''ignore''"
  shows "flush_section wp st = Inr (st\<lparr>sectionItems := []\<rparr>)"
  using assms by (simp add: flush_section_def closing_html_def active_def emit_def)

lemma step_ignore_end:
  assumes "currentSection st = Some ''ignore''"
  shows "step st ''<IGNORE END>'' rest = Inr (st\<lparr>sectionItems := [], currentSection := None\<rparr>, 0)"
  using role_ignore_end assms by (simp add: step_EndTag flush_ignore)

lemma step_ignored:
  assumes cs: "currentSection st = Some ''ignore''" and l: "\<not> inList st"
    and m: "\<not> section_marker raw"
  shows "\<exists>buffered. step st raw rest = Inr (st\<lparr>sectionItems := buffered\<rparr>, 0)"
proof -
  have a: "active st" using cs by (simp add: active_def)
  show ?thesis
  proof (cases "line_role raw")
    case Blank
    with l have "step st raw rest = Inr (st\<lparr>sectionItems := sectionItems st\<rparr>, 0)"
      by (simp add: step_Blank close_open_list_closed)
    then show ?thesis by blast
  next
    case TableBlock
    with m show ?thesis by (simp add: section_marker_def)
  next
    case Skipped
    then have "step st raw rest = Inr (st\<lparr>sectionItems := sectionItems st\<rparr>, 0)"
      by (simp add: step_Skipped)
    then show ?thesis by blast
  next
    case EndTag
    with m show ?thesis by (simp add: section_marker_def)
  next
    case (Opens t)
    with m show ?thesis by (simp add: section_marker_def)
  next
    case Heading
    have "step st raw rest = Inr (st\<lparr>sectionItems := []\<rparr>, 0)"
      using Heading cs l heading_or_tag_Heading(3) [OF Heading, of "st\<lparr>sectionItems := []\<rparr>"]
      by (simp add: step_heading_branch flush_ignore close_open_list_closed)
    then show ?thesis by blast
  next
    case TableRow
    with a have "step st raw rest =
        Inr (st\<lparr>sectionItems := sectionItems st @
               [if line_role raw = ListItem then cleanListItem (trim raw) else trim raw]\<rparr>, 0)"
      by (simp add: step_buffered buffer_def)
    then show ?thesis by blast
  next
    case ListItem
    with a have "step st raw rest =
        Inr (st\<lparr>sectionItems := sectionItems st @
               [if line_role raw = ListItem then cleanListItem (trim raw) else trim raw]\<rparr>, 0)"
      by (simp add: step_buffered buffer_def)
    then show ?thesis by blast
  next
    case Prose
    with a have "step st raw rest =
        Inr (st\<lparr>sectionItems := sectionItems st @
               [if line_role raw = ListItem then cleanListItem (trim raw) else trim raw]\<rparr>, 0)"
      by (simp add: step_buffered buffer_def)
    then show ?thesis by blast
  qed
qed

lemma scan_ignored:
  assumes "currentSection st = Some ''ignore''" and "\<not> inList st"
    and "list_all (\<lambda>l. \<not> section_marker l) region"
  shows "\<exists>buffered. scan st (region @ post) = scan (st\<lparr>sectionItems := buffered\<rparr>) post"
  using assms
proof (induction region arbitrary: st)
  case Nil
  have "scan st post = scan (st\<lparr>sectionItems := sectionItems st\<rparr>) post" by simp
  then show ?case by (intro exI [of _ "sectionItems st"]) simp
next
  case (Cons raw region)
  from step_ignored [OF Cons.prems(1,2), of raw "region @ post"] Cons.prems(3)
  obtain b where s: "step st raw (region @ post) = Inr (st\<lparr>sectionItems := b\<rparr>, 0)" by auto
  from Cons.IH [of "st\<lparr>sectionItems := b\<rparr>"] Cons.prems
  obtain b' where "scan (st\<lparr>sectionItems := b\<rparr>) (region @ post) = scan (st\<lparr>sectionItems := b'\<rparr>) post"
    by auto
  with s show ?case by auto
qed

lemma scan_ignore_end:
  assumes "currentSection st = Some ''ignore''"
  shows "scan (st\<lparr>sectionItems := b\<rparr>) (''<IGNORE END>'' # post) =
         scan (st\<lparr>sectionItems := [], currentSection := None\<rparr>) post"
  using assms by (simp add: step_ignore_end)

lemma scan_ignored_region:
  assumes "currentSection st = Some ''ignore''" and "\<not> inList st"
    and "list_all (\<lambda>l. \<not> section_marker l) region"
  shows "scan st (region @ ''<IGNORE END>'' # post) =
         scan (st\<lparr>sectionItems := [], currentSection := None\<rparr>) post"
proof -
  from scan_ignored [OF assms, of "''<IGNORE END>'' # post"] obtain b where
    "scan st (region @ ''<IGNORE END>'' # post) = scan (st\<lparr>sectionItems := b\<rparr>) (''<IGNORE END>'' # post)"
    by blast
  with scan_ignore_end [OF assms(1), of b post] show ?thesis by simp
qed

lemma scan_ignore_bracket:
  assumes "list_all (\<lambda>l. \<not> section_marker l) region"
  shows "scan st (''<IGNORE>'' # region @ ''<IGNORE END>'' # post) =
         scan st (''<IGNORE>'' # ''<IGNORE END>'' # post)"
proof (cases "flush_section True st")
  case (Inl e)
  then show ?thesis by (simp add: step_ignore_start)
next
  case (Inr st1)
  let ?s = "(close_open_list st1)\<lparr>currentSection := Some ''ignore''\<rparr>"
  have c: "currentSection ?s = Some ''ignore''" "\<not> inList ?s" by simp_all
  have "scan st (''<IGNORE>'' # region @ ''<IGNORE END>'' # post) =
        scan ?s (region @ ''<IGNORE END>'' # post)"
    using Inr by (simp add: step_ignore_start)
  also have "\<dots> = scan (?s\<lparr>sectionItems := [], currentSection := None\<rparr>) post"
    using c assms by (rule scan_ignored_region)
  also have "\<dots> = scan ?s ([] @ ''<IGNORE END>'' # post)"
    using scan_ignored_region [OF c, of "[]" post] by simp
  also have "\<dots> = scan st (''<IGNORE>'' # ''<IGNORE END>'' # post)"
    using Inr by (simp add: step_ignore_start)
  finally show ?thesis .
qed

lemma scan_ignore_idle:
  assumes "list_all (\<lambda>l. \<not> section_marker l) region"
    and "currentSection st = None" "sectionItems st = []" "\<not> inList st"
  shows "scan st (''<IGNORE>'' # region @ ''<IGNORE END>'' # post) = scan st post"
proof -
  have f: "flush_section True st = Inr st"
    using assms by (simp add: flush_section_def closing_html_def active_def)
  let ?s = "st\<lparr>currentSection := Some ''ignore''\<rparr>"
  have c: "currentSection ?s = Some ''ignore''" "\<not> inList ?s" using assms by simp_all
  have "scan st (''<IGNORE>'' # region @ ''<IGNORE END>'' # post) =
        scan ?s (region @ ''<IGNORE END>'' # post)"
    using f assms by (simp add: step_ignore_start close_open_list_closed)
  also have "\<dots> = scan (?s\<lparr>sectionItems := [], currentSection := None\<rparr>) post"
    using c assms(1) by (rule scan_ignored_region)
  also have "?s\<lparr>sectionItems := [], currentSection := None\<rparr> = st"
    using assms by simp
  finally show ?thesis .
qed

lemma place_toc_cong:
  "html a = html b \<Longrightarrow> tocItems a = tocItems b \<Longrightarrow> place_toc a = place_toc b"
  by (simp add: place_toc_def split: sum.splits)

lemma finish_html_eq:
  assumes "finish_scan a = Inr a'" "finish_scan b = Inr b'"
    and "html a' = html b'" "tocItems a' = tocItems b'"
  shows "finish_html a = finish_html b"
  using assms place_toc_cong [of a' b'] by (simp add: finish_html_def)

lemma finish_scan_quiet:
  assumes "currentSection st = Some ''ignore'' \<or> currentSection st = None"
  shows "\<exists>st'. finish_scan st = Inr st' \<and> tocItems st' = tocItems st \<and>
           html st' = html st @ (if inList st then closeList (currentListType st) else [])"
  using assms by (auto simp add: finish_scan_def closing_html_def emit_def Let_def)

lemma finish_html_ignore:
  assumes "currentSection st = Some ''ignore''"
  shows "finish_html (st\<lparr>sectionItems := b\<rparr>) = finish_html st"
proof -
  from finish_scan_quiet [of st] assms obtain a where
    a: "finish_scan st = Inr a" "tocItems a = tocItems st"
       "html a = html st @ (if inList st then closeList (currentListType st) else [])" by blast
  from finish_scan_quiet [of "st\<lparr>sectionItems := b\<rparr>"] assms obtain c where
    c: "finish_scan (st\<lparr>sectionItems := b\<rparr>) = Inr c" "tocItems c = tocItems st"
       "html c = html st @ (if inList st then closeList (currentListType st) else [])" by auto
  from c(1) a(1) show ?thesis by (rule finish_html_eq) (simp_all add: a c)
qed

lemma finish_html_open_ignore:
  assumes "currentSection st = None"
  shows "finish_html (st\<lparr>currentSection := Some ''ignore''\<rparr>) = finish_html st"
proof -
  from finish_scan_quiet [of st] assms obtain a where
    a: "finish_scan st = Inr a" "tocItems a = tocItems st"
       "html a = html st @ (if inList st then closeList (currentListType st) else [])" by blast
  from finish_scan_quiet [of "st\<lparr>currentSection := Some ''ignore''\<rparr>"] obtain c where
    c: "finish_scan (st\<lparr>currentSection := Some ''ignore''\<rparr>) = Inr c" "tocItems c = tocItems st"
       "html c = html st @ (if inList st then closeList (currentListType st) else [])" by auto
  from c(1) a(1) show ?thesis by (rule finish_html_eq) (simp_all add: a c)
qed

lemma finish_ignore_open:
  assumes "list_all (\<lambda>l. \<not> section_marker l) region"
  shows "finish_from st (''<IGNORE>'' # region) = finish_from st [''<IGNORE>'']"
proof (cases "flush_section True st")
  case (Inl e)
  then show ?thesis by (simp add: finish_from_def step_ignore_start)
next
  case (Inr st1)
  let ?s = "(close_open_list st1)\<lparr>currentSection := Some ''ignore''\<rparr>"
  have c: "currentSection ?s = Some ''ignore''" "\<not> inList ?s" by simp_all
  from scan_ignored [OF c assms, of "[]"] obtain b where
    b: "scan ?s region = Inr (?s\<lparr>sectionItems := b\<rparr>)" by auto
  have "finish_from st (''<IGNORE>'' # region) = finish_html (?s\<lparr>sectionItems := b\<rparr>)"
    using Inr b by (simp add: finish_from_def step_ignore_start)
  also have "\<dots> = finish_html ?s" using c(1) by (rule finish_html_ignore)
  also have "\<dots> = finish_from st [''<IGNORE>'']"
    using Inr by (simp add: finish_from_def step_ignore_start)
  finally show ?thesis .
qed

lemma finish_ignore_open_idle:
  assumes "list_all (\<lambda>l. \<not> section_marker l) region"
    and "currentSection st = None" "sectionItems st = []" "\<not> inList st"
  shows "finish_from st (''<IGNORE>'' # region) = finish_from st []"
proof -
  have f: "flush_section True st = Inr st"
    using assms by (simp add: flush_section_def closing_html_def active_def)
  have "finish_from st [''<IGNORE>''] = finish_html (st\<lparr>currentSection := Some ''ignore''\<rparr>)"
    using f assms by (simp add: finish_from_def step_ignore_start close_open_list_closed)
  also have "\<dots> = finish_html st"
    using assms(2) by (rule finish_html_open_ignore)
  finally show ?thesis using finish_ignore_open [OF assms(1), of st] by (simp add: finish_from_def)
qed

text \<open>
  Claim C8. The \<^verbatim>\<open>ignore\<close> template returns the empty string for every content and every
  buffer. A region between \<^verbatim>\<open><IGNORE>\<close> and \<^verbatim>\<open><IGNORE END>\<close>, or between \<^verbatim>\<open><IGNORE>\<close> and
  the end of the input, adds nothing to the output when none of its lines is a section
  marker (a start tag or a heading that is a trigger, an end tag, a \<^verbatim>\<open><TABLE>\<close> line):
  from every state of the loop, the lines of the region can be removed without changing
  the state after the end tag, or the result at the end of the input. When the loop
  reaches the start tag with no section active and no list open, the two tags can be
  removed as well; so it is at the start of the input, for \<open>convert_lines\<close>.
\<close>

theorem ignored_region_vanishes:
  assumes "list_all (\<lambda>l. \<not> section_marker l) region"
  shows "processSectionContent ''ignore'' content items = Inr (JString []) \<and>
         scan st (''<IGNORE>'' # region @ ''<IGNORE END>'' # post) =
           scan st (''<IGNORE>'' # ''<IGNORE END>'' # post) \<and>
         finish_from st (''<IGNORE>'' # region) = finish_from st [''<IGNORE>''] \<and>
         (currentSection st = None \<and> sectionItems st = [] \<and> \<not> inList st \<longrightarrow>
            scan st (''<IGNORE>'' # region @ ''<IGNORE END>'' # post) = scan st post \<and>
            finish_from st (''<IGNORE>'' # region) = finish_from st []) \<and>
         convert_lines (''<IGNORE>'' # region @ ''<IGNORE END>'' # post) = convert_lines post \<and>
         convert_lines (''<IGNORE>'' # region) = convert_lines []"
proof -
  have idle: "currentSection initial_state = None" "sectionItems initial_state = []"
    "\<not> inList initial_state"
    by (simp_all add: initial_state_def)
  have c: "convert_lines ls = finish_from initial_state ls" for ls
    by (simp add: convert_lines_def finish_from_def)
  have "convert_lines (''<IGNORE>'' # region @ ''<IGNORE END>'' # post) = convert_lines post"
    unfolding convert_lines_def using scan_ignore_idle [OF assms idle, of post] by simp
  moreover have "convert_lines (''<IGNORE>'' # region) = convert_lines []"
    unfolding c using assms idle by (rule finish_ignore_open_idle)
  ultimately show ?thesis
    using assms processSectionContent_ignore [of content items] scan_ignore_bracket [of region st post]
      finish_ignore_open [of region st] scan_ignore_idle [of region st post]
      finish_ignore_open_idle [of region st]
    by simp
qed

theorem ignored_region_vanishes_witness:
  "list_all (\<lambda>l. \<not> section_marker l)
     [''secret'', ''more | x'', ''- item'', ''Some Heading Here'', '''', ''TABLE END''] \<and>
   (currentSection initial_state = None \<and> sectionItems initial_state = [] \<and>
    \<not> inList initial_state) \<and>
   scan initial_state
     [''<IGNORE>'', ''secret'', ''more | x'', ''- item'', ''Some Heading Here'', '''',
      ''TABLE END'', ''<IGNORE END>'', ''after''] = scan initial_state [''after''] \<and>
   convert_lines [''<IGNORE>'', ''secret'', ''more | x'', ''- item'', ''Some Heading Here'', '''',
                  ''TABLE END'', ''<IGNORE END>'', ''after''] = convert_lines [''after''] \<and>
   convert_lines [''after''] = Inr ''<p>after</p>''"
proof -
  let ?region = "[''secret'', ''more | x'', ''- item'', ''Some Heading Here'', '''', ''TABLE END'']"
  have 1: "list_all (\<lambda>l. \<not> section_marker l) ?region" by code_simp
  have 2: "convert_lines [''after''] = Inr ''<p>after</p>''" by code_simp
  have 3: "currentSection initial_state = None \<and> sectionItems initial_state = [] \<and>
           \<not> inList initial_state"
    by (simp add: initial_state_def)
  note t = ignored_region_vanishes [OF 1, of "[]" "[]" initial_state "[''after'']"]
  from t have "convert_lines (''<IGNORE>'' # ?region @ ''<IGNORE END>'' # [''after'']) =
               convert_lines [''after'']"
    by blast
  moreover from t 3 have "scan initial_state (''<IGNORE>'' # ?region @ ''<IGNORE END>'' # [''after'']) =
               scan initial_state [''after'']"
    by blast
  ultimately show ?thesis using 1 2 3 by simp
qed

text \<open>
  A heading that is a trigger, inside the region, closes the \<^verbatim>\<open>ignore\<close> section and opens
  its own: the heading and the lines after it are shown. And the start tag closes the
  open list, so that the items before and after the region are two lists instead of one.
\<close>

theorem ignored_region_shows:
  \<open>convert_lines [''<IGNORE>'', ''KEY TAKEAWAYS'', ''secret'', ''<IGNORE END>''] =
     Inr (''<h2 id="key-takeaways">KEY TAKEAWAYS</h2> <ul class="kta-list"> <p>Key Takeaways</p> <li>secret</li>'' @
          nl @ ''</ul>'') \<and>
   convert_lines [''<IGNORE>'', ''KEY TAKEAWAYS'', ''secret'', ''<IGNORE END>''] \<noteq> convert_lines [] \<and>
   convert_lines [''- a'', ''<IGNORE>'', ''x'', ''<IGNORE END>'', ''- b''] =
     Inr (''<ul class="bullet-new-box"> <li>a</li>'' @ nl @ ''</ul>'' @ nl @
          ''<ul class="bullet-new-box"> <li>b</li>'' @ nl @ ''</ul>'') \<and>
   convert_lines [''- a'', ''<IGNORE>'', ''x'', ''<IGNORE END>'', ''- b''] \<noteq>
     convert_lines [''- a'', ''- b'']\<close>
proof -
  have 1: \<open>convert_lines [''<IGNORE>'', ''KEY TAKEAWAYS'', ''secret'', ''<IGNORE END>''] =
     Inr (''<h2 id="key-takeaways">KEY TAKEAWAYS</h2> <ul class="kta-list"> <p>Key Takeaways</p> <li>secret</li>'' @
          nl @ ''</ul>'')\<close>
    by code_simp
  have 2: "convert_lines [] = Inr []" by code_simp
  have 3: \<open>convert_lines [''- a'', ''<IGNORE>'', ''x'', ''<IGNORE END>'', ''- b''] =
     Inr (''<ul class="bullet-new-box"> <li>a</li>'' @ nl @ ''</ul>'' @ nl @
          ''<ul class="bullet-new-box"> <li>b</li>'' @ nl @ ''</ul>'')\<close>
    by code_simp
  have 4: \<open>convert_lines [''- a'', ''- b''] =
     Inr (''<ul class="bullet-new-box"> <li>a</li> <li>b</li>'' @ nl @ ''</ul>'')\<close>
    by code_simp
  show ?thesis unfolding 1 2 3 4 by (simp add: nl_def)
qed

end
